theory Spec2Isabelle
  imports Main "HOL-Library.Word" "HOL-Library.Stream" "HOL-Library.Sublist"
begin

section \<open>The Linky exporter: frame reader, line decoder and metric projection\<close>

text \<open>
  A shallow embedding of \<^verbatim>\<open>pkg/collectors/linky-standard-collector.go\<close>: the record
  \<^verbatim>\<open>linkyValues\<close>, the decoder \<^verbatim>\<open>proceedLine\<close>, the frame reader \<^verbatim>\<open>readSerial\<close>
  and the projection \<^verbatim>\<open>Collect\<close>. Go strings are byte sequences, here \<open>string\<close>
  (a list of 8-bit characters). The functions of the Go standard library and of the
  metrics library that the collector calls are modelled first, from their documented
  behaviour.
\<close>

subsection \<open>Go library functions used by the collector\<close>

abbreviation STX :: char where "STX \<equiv> CHR 0x02"
abbreviation ETX :: char where "ETX \<equiv> CHR 0x03"
abbreviation HT :: char where "HT \<equiv> CHR 0x09"

text \<open>\<^verbatim>\<open>strings.Contains(s, substr)\<close>: \<open>substr\<close> occurs in \<open>s\<close> as a contiguous run.\<close>

fun Contains :: "string \<Rightarrow> string \<Rightarrow> bool" where
  "Contains [] substr = (substr = [])"
| "Contains (c # cs) substr = (prefix substr (c # cs) \<or> Contains cs substr)"

text \<open>
  \<^verbatim>\<open>strings.Split(s, sep)\<close> for a one-byte separator: the pieces between the separators,
  always at least one piece (\<^verbatim>\<open>Split("", sep)\<close> is \<^verbatim>\<open>[""]\<close>).
\<close>

fun Split :: "string \<Rightarrow> char \<Rightarrow> string list" where
  "Split [] sep = [ [] ]"
| "Split (c # cs) sep =
     (if c = sep then [] # Split cs sep
      else (case Split cs sep of [] \<Rightarrow> [ [c] ] | w # ws \<Rightarrow> (c # w) # ws))"

text \<open>
  \<^verbatim>\<open>strings.ToLower(s)\<close>: a string of ASCII bytes only is lowered bytewise
  (\<^verbatim>\<open>'A'..'Z'\<close> plus 32); any other string goes rune by rune through the Unicode
  tables, \<^verbatim>\<open>strings.Map(unicode.ToLower, s)\<close>, which is the parameter \<open>ul\<close> here.
\<close>

definition lower_byte :: "char \<Rightarrow> char" where
  "lower_byte c =
     (let n = (of_char c :: nat) in if 65 \<le> n \<and> n \<le> 90 then char_of (n + 32) else c)"

definition ToLower :: "(string \<Rightarrow> string) \<Rightarrow> string \<Rightarrow> string" where
  "ToLower ul s =
     (if list_all (\<lambda>c. (of_char c :: nat) < 128) s then map lower_byte s else ul s)"

text \<open>
  \<^verbatim>\<open>strconv.ParseUint(s, 10, bitSize)\<close> returns a value and an error. The loop over the
  bytes stops at the first byte that is no decimal digit (value 0, syntax error) or at
  the first digit that takes the number above \<^verbatim>\<open>maxVal = 1<<bitSize - 1\<close> (value
  \<^verbatim>\<open>maxVal\<close>, range error). The accumulator is a \<^verbatim>\<open>uint64\<close>: the wrap-around is
  written out.
\<close>

datatype NumError = ErrSyntax | ErrRange

definition isDigit :: "char \<Rightarrow> bool" where
  "isDigit c = (48 \<le> (of_char c :: nat) \<and> (of_char c :: nat) \<le> 57)"

definition digitVal :: "char \<Rightarrow> nat" where
  "digitVal c = of_char c - 48"

definition cutoff64 :: nat where
  "cutoff64 = (2 ^ 64 - 1) div 10 + 1"

fun ParseUint_loop :: "nat \<Rightarrow> nat \<Rightarrow> string \<Rightarrow> nat \<times> NumError option" where
  "ParseUint_loop maxVal n [] = (n, None)"
| "ParseUint_loop maxVal n (c # cs) =
     (if \<not> isDigit c then (0, Some ErrSyntax)
      else if n \<ge> cutoff64 then (maxVal, Some ErrRange)
      else (let n10 = (n * 10) mod 2 ^ 64;
                n1 = (n10 + digitVal c) mod 2 ^ 64
            in if n1 < n10 \<or> n1 > maxVal then (maxVal, Some ErrRange)
               else ParseUint_loop maxVal n1 cs))"

definition ParseUint :: "string \<Rightarrow> nat \<Rightarrow> nat \<times> NumError option" where
  "ParseUint s bitSize =
     (if s = [] then (0, Some ErrSyntax) else ParseUint_loop (2 ^ bitSize - 1) 0 s)"

text \<open>
  \<^verbatim>\<open>strconv.ParseInt(s, 10, bitSize)\<close>: an optional sign, then \<^verbatim>\<open>ParseUint\<close> on the
  rest; a syntax error gives 0, a magnitude out of range gives the nearest bound.
\<close>

definition ParseInt :: "string \<Rightarrow> nat \<Rightarrow> int \<times> NumError option" where
  "ParseInt s bitSize =
     (if s = [] then (0, Some ErrSyntax)
      else (let neg = (hd s = CHR ''-'');
                s' = (if hd s = CHR ''+'' \<or> hd s = CHR ''-'' then tl s else s);
                (un, err) = ParseUint s' bitSize
            in if err = Some ErrSyntax then (0, err)
               else (let cutoff = 2 ^ (bitSize - 1)
                     in if \<not> neg \<and> un \<ge> cutoff then (int cutoff - 1, Some ErrRange)
                        else if neg \<and> un > cutoff then (- int cutoff, Some ErrRange)
                        else (if neg then - int un else int un, None))))"

text \<open>
  \<^verbatim>\<open>utf8.ValidString\<close>, which the metrics library applies to every label value.
\<close>

definition cont_byte :: "char \<Rightarrow> bool" where
  "cont_byte c = (128 \<le> (of_char c :: nat) \<and> (of_char c :: nat) \<le> 191)"

definition byte_in :: "nat \<Rightarrow> nat \<Rightarrow> char \<Rightarrow> bool" where
  "byte_in lo hi c = (lo \<le> (of_char c :: nat) \<and> (of_char c :: nat) \<le> hi)"

fun ValidString :: "string \<Rightarrow> bool" where
  "ValidString [] = True"
| "ValidString (c # cs) =
     (if byte_in 0 127 c then ValidString cs
      else if byte_in 194 223 c then
        (case cs of c1 # r \<Rightarrow> cont_byte c1 \<and> ValidString r | _ \<Rightarrow> False)
      else if byte_in 224 239 c then
        (case cs of c1 # c2 # r \<Rightarrow>
           (if byte_in 224 224 c then byte_in 160 191 c1
            else if byte_in 237 237 c then byte_in 128 159 c1
            else cont_byte c1) \<and> cont_byte c2 \<and> ValidString r
         | _ \<Rightarrow> False)
      else if byte_in 240 244 c then
        (case cs of c1 # c2 # c3 # r \<Rightarrow>
           (if byte_in 240 240 c then byte_in 144 191 c1
            else if byte_in 244 244 c then byte_in 128 143 c1
            else cont_byte c1) \<and> cont_byte c2 \<and> cont_byte c3 \<and> ValidString r
         | _ \<Rightarrow> False)
      else False)"

subsection \<open>The decoded values\<close>

type_synonym uint8 = "8 word"
type_synonym uint16 = "16 word"
type_synonym uint32 = "32 word"
type_synonym int16 = "16 word"

text \<open>
  The struct \<^verbatim>\<open>linkyValues\<close>. The three \<^verbatim>\<open>int16\<close> fields are 16-bit words read
  with \<open>sint\<close>.
\<close>

record linkyValues =
  adsc :: string
  vtic :: string
  date :: string
  ngtf :: string
  ltarf :: string
  east :: uint32
  easf01 :: uint32
  easf02 :: uint32
  easf03 :: uint32
  easf04 :: uint32
  easf05 :: uint32
  easf06 :: uint32
  easf07 :: uint32
  easf08 :: uint32
  easf09 :: uint32
  easf10 :: uint32
  easd01 :: uint32
  easd02 :: uint32
  easd03 :: uint32
  easd04 :: uint32
  eait :: uint32
  erq1 :: uint32
  erq2 :: uint32
  erq3 :: uint32
  erq4 :: uint32
  irms1 :: uint16
  irms2 :: uint16
  irms3 :: uint16
  urms1 :: uint16
  urms2 :: uint16
  urms3 :: uint16
  pref :: uint8
  pcoup :: uint8
  sinsts :: uint16
  sinsts1 :: int16
  sinsts2 :: int16
  sinsts3 :: int16
  sinsti :: uint16
  stge :: string
  dpm1 :: string
  dpm1_timestamp :: string
  fpm1 :: string
  fpm1_timestamp :: string
  dpm2 :: string
  dpm2_timestamp :: string
  fpm2 :: string
  fpm2_timestamp :: string
  dpm3 :: string
  dpm3_timestamp :: string
  fpm3 :: string
  fpm3_timestamp :: string
  msg1 :: string
  msg2 :: string
  prm :: string
  relais :: uint8
  ntarf :: string
  njourf :: string
  njourf_1 :: string
  pjourf_1 :: string
  ppointe :: string

text \<open>The zero value \<^verbatim>\<open>linkyValues{}\<close> that \<^verbatim>\<open>Collect\<close> starts every cycle from.\<close>

definition linkyValues0 :: linkyValues where
  "linkyValues0 =
     \<lparr> adsc = [], vtic = [], date = [], ngtf = [], ltarf = [],
       east = 0, easf01 = 0, easf02 = 0, easf03 = 0, easf04 = 0, easf05 = 0,
       easf06 = 0, easf07 = 0, easf08 = 0, easf09 = 0, easf10 = 0,
       easd01 = 0, easd02 = 0, easd03 = 0, easd04 = 0,
       eait = 0, erq1 = 0, erq2 = 0, erq3 = 0, erq4 = 0,
       irms1 = 0, irms2 = 0, irms3 = 0, urms1 = 0, urms2 = 0, urms3 = 0,
       pref = 0, pcoup = 0, sinsts = 0, sinsts1 = 0, sinsts2 = 0, sinsts3 = 0,
       sinsti = 0, stge = [],
       dpm1 = [], dpm1_timestamp = [], fpm1 = [], fpm1_timestamp = [],
       dpm2 = [], dpm2_timestamp = [], fpm2 = [], fpm2_timestamp = [],
       dpm3 = [], dpm3_timestamp = [], fpm3 = [], fpm3_timestamp = [],
       msg1 = [], msg2 = [], prm = [], relais = 0, ntarf = [],
       njourf = [], njourf_1 = [], pjourf_1 = [], ppointe = [] \<rparr>"

subsection \<open>The line decoder\<close>

text \<open>
  A Go panic is a value: indexing a slice out of range (\<^verbatim>\<open>data[i]\<close> with
  \<^verbatim>\<open>i >= len(data)\<close>) and a rejected metric in \<^verbatim>\<open>MustNewConstMetric\<close>.
\<close>

datatype panic = IndexOutOfRange nat nat | MetricError string

definition index :: "string list \<Rightarrow> nat \<Rightarrow> panic + string" where
  "index data i = (if i < length data then Inr (data ! i) else Inl (IndexOutOfRange i (length data)))"

text \<open>
  The three shapes of a \<^verbatim>\<open>case\<close> body in \<^verbatim>\<open>proceedLine\<close>:
  \<^verbatim>\<open>field = string(data[1])\<close>;
  \<^verbatim>\<open>val, _ := strconv.ParseUint(data[1], 10, w); field = uintw(val)\<close> (and the same
  with \<^verbatim>\<open>ParseInt\<close>), where the error is discarded and the value stored whatever it is;
  \<^verbatim>\<open>label = string(data[2]); timestamp = string(data[1])\<close>.
\<close>

definition text_field ::
  "string list \<Rightarrow> (string \<Rightarrow> linkyValues \<Rightarrow> linkyValues) \<Rightarrow> linkyValues \<Rightarrow> panic + linkyValues" where
  "text_field data upd v =
     (case index data 1 of Inl p \<Rightarrow> Inl p | Inr d1 \<Rightarrow> Inr (upd d1 v))"

definition uint_field ::
  "nat \<Rightarrow> string list \<Rightarrow> ('a::len word \<Rightarrow> linkyValues \<Rightarrow> linkyValues) \<Rightarrow> linkyValues
     \<Rightarrow> panic + linkyValues" where
  "uint_field bitSize data upd v =
     (case index data 1 of Inl p \<Rightarrow> Inl p
      | Inr d1 \<Rightarrow> Inr (upd (word_of_nat (fst (ParseUint d1 bitSize))) v))"

definition int_field ::
  "nat \<Rightarrow> string list \<Rightarrow> ('a::len word \<Rightarrow> linkyValues \<Rightarrow> linkyValues) \<Rightarrow> linkyValues
     \<Rightarrow> panic + linkyValues" where
  "int_field bitSize data upd v =
     (case index data 1 of Inl p \<Rightarrow> Inl p
      | Inr d1 \<Rightarrow> Inr (upd (word_of_int (fst (ParseInt d1 bitSize))) v))"

definition peak_field ::
  "string list \<Rightarrow> (string \<Rightarrow> linkyValues \<Rightarrow> linkyValues) \<Rightarrow> (string \<Rightarrow> linkyValues \<Rightarrow> linkyValues)
     \<Rightarrow> linkyValues \<Rightarrow> panic + linkyValues" where
  "peak_field data upd_label upd_timestamp v =
     (case index data 2 of Inl p \<Rightarrow> Inl p
      | Inr d2 \<Rightarrow> (case index data 1 of Inl p \<Rightarrow> Inl p
                  | Inr d1 \<Rightarrow> Inr (upd_timestamp d1 (upd_label d2 v))))"

text \<open>The \<^verbatim>\<open>switch\<close> of \<^verbatim>\<open>proceedLine\<close> on the lowered first token, in the source's order.\<close>

definition dispatch :: "string \<Rightarrow> string list \<Rightarrow> linkyValues \<Rightarrow> panic + linkyValues" where
  "dispatch k data v =
    (if k = ''adsc'' then text_field data (\<lambda>d r. r\<lparr>adsc := d\<rparr>) v
     else if k = ''vtic'' then text_field data (\<lambda>d r. r\<lparr>vtic := d\<rparr>) v
     else if k = ''date'' then text_field data (\<lambda>d r. r\<lparr>date := d\<rparr>) v
     else if k = ''ngtf'' then text_field data (\<lambda>d r. r\<lparr>ngtf := d\<rparr>) v
     else if k = ''ltarf'' then text_field data (\<lambda>d r. r\<lparr>ltarf := d\<rparr>) v
     else if k = ''east'' then uint_field 32 data (\<lambda>x r. r\<lparr>east := x\<rparr>) v
     else if k = ''easf01'' then uint_field 32 data (\<lambda>x r. r\<lparr>easf01 := x\<rparr>) v
     else if k = ''easf02'' then uint_field 32 data (\<lambda>x r. r\<lparr>easf02 := x\<rparr>) v
     else if k = ''easf03'' then uint_field 32 data (\<lambda>x r. r\<lparr>easf03 := x\<rparr>) v
     else if k = ''easf04'' then uint_field 32 data (\<lambda>x r. r\<lparr>easf04 := x\<rparr>) v
     else if k = ''easf05'' then uint_field 32 data (\<lambda>x r. r\<lparr>easf05 := x\<rparr>) v
     else if k = ''easf06'' then uint_field 32 data (\<lambda>x r. r\<lparr>easf06 := x\<rparr>) v
     else if k = ''easf07'' then uint_field 32 data (\<lambda>x r. r\<lparr>easf07 := x\<rparr>) v
     else if k = ''easf08'' then uint_field 32 data (\<lambda>x r. r\<lparr>easf08 := x\<rparr>) v
     else if k = ''easf09'' then uint_field 32 data (\<lambda>x r. r\<lparr>easf09 := x\<rparr>) v
     else if k = ''easf10'' then uint_field 32 data (\<lambda>x r. r\<lparr>easf10 := x\<rparr>) v
     else if k = ''easd01'' then uint_field 32 data (\<lambda>x r. r\<lparr>easd01 := x\<rparr>) v
     else if k = ''easd02'' then uint_field 32 data (\<lambda>x r. r\<lparr>easd02 := x\<rparr>) v
     else if k = ''easd03'' then uint_field 32 data (\<lambda>x r. r\<lparr>easd03 := x\<rparr>) v
     else if k = ''easd04'' then uint_field 32 data (\<lambda>x r. r\<lparr>easd04 := x\<rparr>) v
     else if k = ''eait'' then uint_field 32 data (\<lambda>x r. r\<lparr>eait := x\<rparr>) v
     else if k = ''erq1'' then uint_field 32 data (\<lambda>x r. r\<lparr>erq1 := x\<rparr>) v
     else if k = ''erq2'' then uint_field 32 data (\<lambda>x r. r\<lparr>erq2 := x\<rparr>) v
     else if k = ''erq3'' then uint_field 32 data (\<lambda>x r. r\<lparr>erq3 := x\<rparr>) v
     else if k = ''erq4'' then uint_field 32 data (\<lambda>x r. r\<lparr>erq4 := x\<rparr>) v
     else if k = ''irms1'' then uint_field 16 data (\<lambda>x r. r\<lparr>irms1 := x\<rparr>) v
     else if k = ''irms2'' then uint_field 16 data (\<lambda>x r. r\<lparr>irms2 := x\<rparr>) v
     else if k = ''irms3'' then uint_field 16 data (\<lambda>x r. r\<lparr>irms3 := x\<rparr>) v
     else if k = ''urms1'' then uint_field 16 data (\<lambda>x r. r\<lparr>urms1 := x\<rparr>) v
     else if k = ''urms2'' then uint_field 16 data (\<lambda>x r. r\<lparr>urms2 := x\<rparr>) v
     else if k = ''urms3'' then uint_field 16 data (\<lambda>x r. r\<lparr>urms3 := x\<rparr>) v
     else if k = ''pref'' then uint_field 8 data (\<lambda>x r. r\<lparr>pref := x\<rparr>) v
     else if k = ''pcoup'' then uint_field 8 data (\<lambda>x r. r\<lparr>pcoup := x\<rparr>) v
     else if k = ''sinsts'' then uint_field 16 data (\<lambda>x r. r\<lparr>sinsts := x\<rparr>) v
     else if k = ''sinsts1'' then int_field 16 data (\<lambda>x r. r\<lparr>sinsts1 := x\<rparr>) v
     else if k = ''sinsts2'' then int_field 16 data (\<lambda>x r. r\<lparr>sinsts2 := x\<rparr>) v
     else if k = ''sinsts3'' then int_field 16 data (\<lambda>x r. r\<lparr>sinsts3 := x\<rparr>) v
     else if k = ''sinsti'' then uint_field 16 data (\<lambda>x r. r\<lparr>sinsti := x\<rparr>) v
     else if k = ''stge'' then text_field data (\<lambda>d r. r\<lparr>stge := d\<rparr>) v
     else if k = ''dpm1'' then
       peak_field data (\<lambda>d r. r\<lparr>dpm1 := d\<rparr>) (\<lambda>d r. r\<lparr>dpm1_timestamp := d\<rparr>) v
     else if k = ''fpm1'' then
       peak_field data (\<lambda>d r. r\<lparr>fpm1 := d\<rparr>) (\<lambda>d r. r\<lparr>fpm1_timestamp := d\<rparr>) v
     else if k = ''dpm2'' then
       peak_field data (\<lambda>d r. r\<lparr>dpm2 := d\<rparr>) (\<lambda>d r. r\<lparr>dpm2_timestamp := d\<rparr>) v
     else if k = ''fpm2'' then
       peak_field data (\<lambda>d r. r\<lparr>fpm2 := d\<rparr>) (\<lambda>d r. r\<lparr>fpm2_timestamp := d\<rparr>) v
     else if k = ''dpm3'' then
       peak_field data (\<lambda>d r. r\<lparr>dpm3 := d\<rparr>) (\<lambda>d r. r\<lparr>dpm3_timestamp := d\<rparr>) v
     else if k = ''fpm3'' then
       peak_field data (\<lambda>d r. r\<lparr>fpm3 := d\<rparr>) (\<lambda>d r. r\<lparr>fpm3_timestamp := d\<rparr>) v
     else if k = ''msg1'' then text_field data (\<lambda>d r. r\<lparr>msg1 := d\<rparr>) v
     else if k = ''msg2'' then text_field data (\<lambda>d r. r\<lparr>msg2 := d\<rparr>) v
     else if k = ''prm'' then text_field data (\<lambda>d r. r\<lparr>prm := d\<rparr>) v
     else if k = ''relais'' then uint_field 8 data (\<lambda>x r. r\<lparr>relais := x\<rparr>) v
     else if k = ''ntarf'' then text_field data (\<lambda>d r. r\<lparr>ntarf := d\<rparr>) v
     else if k = ''njourf'' then text_field data (\<lambda>d r. r\<lparr>njourf := d\<rparr>) v
     else if k = ''njourf+1'' then text_field data (\<lambda>d r. r\<lparr>njourf_1 := d\<rparr>) v
     else if k = ''pjourf+1'' then text_field data (\<lambda>d r. r\<lparr>pjourf_1 := d\<rparr>) v
     else if k = ''ppointe'' then text_field data (\<lambda>d r. r\<lparr>ppointe := d\<rparr>) v
     else Inr v)"

text \<open>
  \<^verbatim>\<open>proceedLine(linkyValues, line)\<close>: split on the tab byte, lower the first token,
  dispatch. The result is the updated record, or the panic that stopped the call.
\<close>

definition proceedLine :: "(string \<Rightarrow> string) \<Rightarrow> linkyValues \<Rightarrow> string \<Rightarrow> panic + linkyValues" where
  "proceedLine ul v line =
     (let data = Split line HT
      in case index data 0 of Inl p \<Rightarrow> Inl p
         | Inr d0 \<Rightarrow> dispatch (ToLower ul d0) data v)"

subsection \<open>The serial port and the frame reader\<close>

text \<open>
  The device is what the collector reads from. \<^verbatim>\<open>serial.OpenPort(c)\<close> either fails with
  an error or gives a stream; \<^verbatim>\<open>reader.ReadLine()\<close> on it gives, call after call, a
  line or an error. The reader is the infinite sequence of these results: a device that
  keeps sending lines is a stream of \<open>Line\<close>s without end.
\<close>

datatype ioError = EOF | DeviceError string

datatype read_result = Line string | ReadFail ioError

type_synonym port = "ioError + read_result stream"

text \<open>
  How a call ends: \<^verbatim>\<open>log.Fatal\<close> logs and calls \<^verbatim>\<open>os.Exit(1)\<close>, a panic unwinds the
  goroutine, or the call returns. A call that never returns has no outcome (\<open>None\<close>).
\<close>

datatype 'a outcome = Exit nat | Panic panic | Return 'a

text \<open>
  The \<^verbatim>\<open>for\<close> loop of \<^verbatim>\<open>readSerial\<close>. It returns the error of a failed read, or
  \<^verbatim>\<open>nil\<close> after the \<^verbatim>\<open>break\<close>; the record behind the pointer \<^verbatim>\<open>linkyValues\<close> is
  returned with it, as the caller sees it afterwards.
\<close>

partial_function (option) readSerial_loop ::
  "(string \<Rightarrow> string) \<Rightarrow> read_result stream \<Rightarrow> bool \<Rightarrow> linkyValues
     \<Rightarrow> (ioError option \<times> linkyValues) outcome option" where
  "readSerial_loop ul reader started v =
     (case shd reader of
        ReadFail err \<Rightarrow> Some (Return (Some err, v))
      | Line line \<Rightarrow>
          if started \<and> Contains line [ETX] then Some (Return (None, v))
          else (let started' = (if Contains line [STX] then True else started)
                in if started'
                   then (case proceedLine ul v line of
                           Inl p \<Rightarrow> Some (Panic p)
                         | Inr v' \<Rightarrow> readSerial_loop ul (stl reader) started' v')
                   else readSerial_loop ul (stl reader) started' v))"

text \<open>
  \<^verbatim>\<open>readSerial\<close>: \<open>opened\<close> is what \<^verbatim>\<open>serial.OpenPort\<close> returns for the collector's
  device, baud rate, frame size, parity and stop bits.
\<close>

definition readSerial ::
  "(string \<Rightarrow> string) \<Rightarrow> port \<Rightarrow> linkyValues \<Rightarrow> (ioError option \<times> linkyValues) outcome option" where
  "readSerial ul opened v =
     (case opened of
        Inl err \<Rightarrow> Some (Exit 1)
      | Inr stream \<Rightarrow> readSerial_loop ul stream False v)"

subsection \<open>The collector and the projection to metrics\<close>

text \<open>
  A descriptor is its name and its label names (the help text is left out); a metric
  is a descriptor, a value type, a value and the label values. Every value projected is
  an integer below \<open>2 ^ 32\<close> in magnitude, times 1000 at most, which \<^verbatim>\<open>float64\<close>
  represents exactly: the value is an \<open>int\<close>.
\<close>

datatype Desc = NewDesc (fqName: string) (variableLabels: "string list")

datatype ValueType = CounterValue | GaugeValue | UntypedValue

datatype Metric = ConstMetric Desc ValueType int "string list"

text \<open>
  \<^verbatim>\<open>prometheus.MustNewConstMetric\<close> panics when the number of label values is not the
  descriptor's number of labels or when a label value is not valid UTF-8.
\<close>

definition MustNewConstMetric :: "Desc \<Rightarrow> ValueType \<Rightarrow> int \<Rightarrow> string list \<Rightarrow> panic + Metric" where
  "MustNewConstMetric d vt x lvs =
     (if length lvs \<noteq> length (variableLabels d) then Inl (MetricError ''inconsistent label cardinality'')
      else if \<not> list_all ValidString lvs then Inl (MetricError ''label value is not valid UTF-8'')
      else Inr (ConstMetric d vt x lvs))"

record LinkyCollector =
  device :: string
  baudRate :: int
  frameSize :: "8 word"
  parity :: "8 word"
  stopBits :: "8 word"
  linky_info :: Desc
  linky_index :: Desc
  linky_current :: Desc
  linky_voltage :: Desc
  linky_subscribed_power :: Desc
  linky_power :: Desc
  linky_load_management :: Desc
  linky_relays :: Desc
  linky_provider_day :: Desc

definition NewLinkyCollector ::
  "string \<Rightarrow> int \<Rightarrow> 8 word \<Rightarrow> 8 word \<Rightarrow> 8 word \<Rightarrow> LinkyCollector" where
  "NewLinkyCollector dev baud fsize par stop =
     \<lparr> device = dev, baudRate = baud, frameSize = fsize, parity = par, stopBits = stop,
       linky_info = NewDesc ''linky_info''
         [''prm'', ''adsc'', ''vtic'', ''date'', ''ngtf'', ''ltarf'', ''stge'', ''msg1'', ''msg2'', ''ntarf''],
       linky_index = NewDesc ''linky_index_watthours_total'' [''prm'', ''index''],
       linky_current = NewDesc ''linky_current_amperes'' [''prm'', ''phase''],
       linky_voltage = NewDesc ''linky_voltage_volts'' [''prm'', ''phase''],
       linky_subscribed_power = NewDesc ''linky_subscribed_power_voltamperes'' [''prm'', ''type''],
       linky_power = NewDesc ''linky_power_voltamperes'' [''prm'', ''direction'', ''phase''],
       linky_load_management = NewDesc ''linky_load_management_info''
         [''prm'', ''dpm1'', ''dpm1_timestamp'', ''fpm1'', ''fpm1_timestamp'',
          ''dpm2'', ''dpm2_timestamp'', ''fpm2'', ''fpm2_timestamp'',
          ''dpm3'', ''dpm3_timestamp'', ''fpm3'', ''fpm3_timestamp'', ''pm_profile''],
       linky_relays = NewDesc ''linky_relays'' [''prm'', ''relay''],
       linky_provider_day = NewDesc ''linky_provider_day_info''
         [''prm'', ''current_day'', ''next_day'', ''next_day_profile''] \<rparr>"

text \<open>
  The 37 sends of \<^verbatim>\<open>Collect\<close>, in the source's order. The first panic stops the
  sequence.
\<close>

definition metrics :: "LinkyCollector \<Rightarrow> linkyValues \<Rightarrow> (panic + Metric) list" where
  "metrics c values =
    [MustNewConstMetric (linky_info c) GaugeValue 1
       [prm values, adsc values, vtic values, date values, ngtf values, ltarf values,
        stge values, msg1 values, msg2 values, ntarf values],
     MustNewConstMetric (linky_index c) CounterValue (uint (east values)) [prm values, ''east''],
     MustNewConstMetric (linky_index c) CounterValue (uint (easf01 values)) [prm values, ''easf01''],
     MustNewConstMetric (linky_index c) CounterValue (uint (easf02 values)) [prm values, ''easf02''],
     MustNewConstMetric (linky_index c) CounterValue (uint (easf03 values)) [prm values, ''easf03''],
     MustNewConstMetric (linky_index c) CounterValue (uint (easf04 values)) [prm values, ''easf04''],
     MustNewConstMetric (linky_index c) CounterValue (uint (easf05 values)) [prm values, ''easf05''],
     MustNewConstMetric (linky_index c) CounterValue (uint (easf06 values)) [prm values, ''easf06''],
     MustNewConstMetric (linky_index c) CounterValue (uint (easf07 values)) [prm values, ''easf07''],
     MustNewConstMetric (linky_index c) CounterValue (uint (easf08 values)) [prm values, ''easf08''],
     MustNewConstMetric (linky_index c) CounterValue (uint (easf09 values)) [prm values, ''easf09''],
     MustNewConstMetric (linky_index c) CounterValue (uint (easf10 values)) [prm values, ''easf10''],
     MustNewConstMetric (linky_index c) CounterValue (uint (easd01 values)) [prm values, ''easd01''],
     MustNewConstMetric (linky_index c) CounterValue (uint (easd02 values)) [prm values, ''easd02''],
     MustNewConstMetric (linky_index c) CounterValue (uint (easd03 values)) [prm values, ''easd03''],
     MustNewConstMetric (linky_index c) CounterValue (uint (easd04 values)) [prm values, ''easd04''],
     MustNewConstMetric (linky_index c) CounterValue (uint (eait values)) [prm values, ''eait''],
     MustNewConstMetric (linky_index c) CounterValue (uint (erq1 values)) [prm values, ''erq1''],
     MustNewConstMetric (linky_index c) CounterValue (uint (erq2 values)) [prm values, ''erq2''],
     MustNewConstMetric (linky_index c) CounterValue (uint (erq3 values)) [prm values, ''erq3''],
     MustNewConstMetric (linky_index c) CounterValue (uint (erq4 values)) [prm values, ''erq4''],
     MustNewConstMetric (linky_current c) GaugeValue (uint (irms1 values)) [prm values, ''1''],
     MustNewConstMetric (linky_current c) GaugeValue (uint (irms2 values)) [prm values, ''2''],
     MustNewConstMetric (linky_current c) GaugeValue (uint (irms3 values)) [prm values, ''3''],
     MustNewConstMetric (linky_voltage c) GaugeValue (uint (urms1 values)) [prm values, ''1''],
     MustNewConstMetric (linky_voltage c) GaugeValue (uint (urms2 values)) [prm values, ''2''],
     MustNewConstMetric (linky_voltage c) GaugeValue (uint (urms3 values)) [prm values, ''3''],
     MustNewConstMetric (linky_subscribed_power c) GaugeValue (uint (pref values) * 1000) [prm values, ''pref''],
     MustNewConstMetric (linky_subscribed_power c) GaugeValue (uint (pcoup values) * 1000) [prm values, ''pcoup''],
     MustNewConstMetric (linky_power c) GaugeValue (uint (sinsts values)) [prm values, ''drawn'', ''sum''],
     MustNewConstMetric (linky_power c) GaugeValue (sint (sinsts1 values)) [prm values, ''drawn'', ''1''],
     MustNewConstMetric (linky_power c) GaugeValue (sint (sinsts2 values)) [prm values, ''drawn'', ''2''],
     MustNewConstMetric (linky_power c) GaugeValue (sint (sinsts3 values)) [prm values, ''drawn'', ''3''],
     MustNewConstMetric (linky_power c) GaugeValue (uint (sinsti values)) [prm values, ''injected'', ''sum''],
     MustNewConstMetric (linky_load_management c) GaugeValue 1
       [prm values, dpm1 values, dpm1_timestamp values, fpm1 values, fpm1_timestamp values,
        dpm2 values, dpm2_timestamp values, fpm2 values, fpm2_timestamp values,
        dpm3 values, dpm3_timestamp values, fpm3 values, fpm3_timestamp values, ppointe values],
     MustNewConstMetric (linky_relays c) GaugeValue (uint (relais values)) [prm values, ''relays''],
     MustNewConstMetric (linky_provider_day c) GaugeValue 1
       [prm values, njourf values, njourf_1 values, pjourf_1 values] ]"

fun send_all :: "(panic + Metric) list \<Rightarrow> panic + Metric list" where
  "send_all [] = Inr []"
| "send_all (m # ms) =
     (case m of Inl p \<Rightarrow> Inl p
      | Inr x \<Rightarrow> (case send_all ms of Inl p \<Rightarrow> Inl p | Inr xs \<Rightarrow> Inr (x # xs)))"

datatype log_entry = Errorf string ioError

text \<open>
  \<^verbatim>\<open>Collect\<close>: a fresh zero record, \<^verbatim>\<open>readSerial\<close>, then the metrics on the channel
  when the error is \<^verbatim>\<open>nil\<close> and one error log entry otherwise. The result is the
  metrics sent and the entries logged.
\<close>

definition Collect ::
  "(string \<Rightarrow> string) \<Rightarrow> LinkyCollector \<Rightarrow> port \<Rightarrow> (Metric list \<times> log_entry list) outcome option" where
  "Collect ul collector opened =
     (case readSerial ul opened linkyValues0 of
        None \<Rightarrow> None
      | Some (Exit n) \<Rightarrow> Some (Exit n)
      | Some (Panic p) \<Rightarrow> Some (Panic p)
      | Some (Return (err, values)) \<Rightarrow>
          (case err of
             None \<Rightarrow> (case send_all (metrics collector values) of
                        Inl p \<Rightarrow> Some (Panic p)
                      | Inr ms \<Rightarrow> Some (Return (ms, [])))
           | Some e \<Rightarrow> Some (Return ([], [Errorf ''Unable to read telemetry information : %s'' e]))))"

subsection \<open>Vocabulary of the specification\<close>

text \<open>
  The lines that the frame reader forwards to the decoder, decoded in order; the first
  panic stops the sequence.
\<close>

fun decode_lines :: "(string \<Rightarrow> string) \<Rightarrow> linkyValues \<Rightarrow> string list \<Rightarrow> panic + linkyValues" where
  "decode_lines ul v [] = Inr v"
| "decode_lines ul v (l # ls) =
     (case proceedLine ul v l of Inl p \<Rightarrow> Inl p | Inr v' \<Rightarrow> decode_lines ul v' ls)"

text \<open>
  The base-10 text form of an unsigned value, without leading zeros, and the number
  that a string of decimal digits denotes (leading zeros allowed).
\<close>

fun dec :: "nat \<Rightarrow> string" where
  "dec n = (if n < 10 then [char_of (48 + n)] else dec (n div 10) @ [char_of (48 + n mod 10)])"

declare dec.simps [simp del]

fun decval :: "string \<Rightarrow> nat" where
  "decval [] = 0"
| "decval (c # cs) = digitVal c * 10 ^ length cs + decval cs"

text \<open>The base-10 text form of a signed value.\<close>

definition dec_int :: "int \<Rightarrow> string" where
  "dec_int i = (if i < 0 then CHR ''-'' # dec (nat (- i)) else dec (nat i))"

text \<open>
  The numeric fields: identifier, declared width, and the field read as a number. The
  unsigned fields are read with \<open>unat\<close>, the signed ones with \<open>sint\<close>.
\<close>

definition unsigned_fields :: "(string \<times> nat \<times> (linkyValues \<Rightarrow> nat)) list" where
  "unsigned_fields =
    [(''east'', 32, \<lambda>v. unat (east v)),
     (''easf01'', 32, \<lambda>v. unat (easf01 v)), (''easf02'', 32, \<lambda>v. unat (easf02 v)),
     (''easf03'', 32, \<lambda>v. unat (easf03 v)), (''easf04'', 32, \<lambda>v. unat (easf04 v)),
     (''easf05'', 32, \<lambda>v. unat (easf05 v)), (''easf06'', 32, \<lambda>v. unat (easf06 v)),
     (''easf07'', 32, \<lambda>v. unat (easf07 v)), (''easf08'', 32, \<lambda>v. unat (easf08 v)),
     (''easf09'', 32, \<lambda>v. unat (easf09 v)), (''easf10'', 32, \<lambda>v. unat (easf10 v)),
     (''easd01'', 32, \<lambda>v. unat (easd01 v)), (''easd02'', 32, \<lambda>v. unat (easd02 v)),
     (''easd03'', 32, \<lambda>v. unat (easd03 v)), (''easd04'', 32, \<lambda>v. unat (easd04 v)),
     (''eait'', 32, \<lambda>v. unat (eait v)),
     (''erq1'', 32, \<lambda>v. unat (erq1 v)), (''erq2'', 32, \<lambda>v. unat (erq2 v)),
     (''erq3'', 32, \<lambda>v. unat (erq3 v)), (''erq4'', 32, \<lambda>v. unat (erq4 v)),
     (''irms1'', 16, \<lambda>v. unat (irms1 v)), (''irms2'', 16, \<lambda>v. unat (irms2 v)),
     (''irms3'', 16, \<lambda>v. unat (irms3 v)),
     (''urms1'', 16, \<lambda>v. unat (urms1 v)), (''urms2'', 16, \<lambda>v. unat (urms2 v)),
     (''urms3'', 16, \<lambda>v. unat (urms3 v)),
     (''pref'', 8, \<lambda>v. unat (pref v)), (''pcoup'', 8, \<lambda>v. unat (pcoup v)),
     (''sinsts'', 16, \<lambda>v. unat (sinsts v)), (''sinsti'', 16, \<lambda>v. unat (sinsti v)),
     (''relais'', 8, \<lambda>v. unat (relais v))]"

definition signed_fields :: "(string \<times> nat \<times> (linkyValues \<Rightarrow> int)) list" where
  "signed_fields =
    [(''sinsts1'', 16, \<lambda>v. sint (sinsts1 v)), (''sinsts2'', 16, \<lambda>v. sint (sinsts2 v)),
     (''sinsts3'', 16, \<lambda>v. sint (sinsts3 v))]"

text \<open>The peak-management fields: identifier, label field, timestamp field.\<close>

definition peak_fields :: "(string \<times> (linkyValues \<Rightarrow> string) \<times> (linkyValues \<Rightarrow> string)) list" where
  "peak_fields =
    [(''dpm1'', dpm1, dpm1_timestamp), (''fpm1'', fpm1, fpm1_timestamp),
     (''dpm2'', dpm2, dpm2_timestamp), (''fpm2'', fpm2, fpm2_timestamp),
     (''dpm3'', dpm3, dpm3_timestamp), (''fpm3'', fpm3, fpm3_timestamp)]"

text \<open>
  The identifiers and their arity: the number of payload tokens that the decoder reads
  for the identifier, 0 for an identifier that is not recognized.
\<close>

definition two_value_ids :: "string list" where
  "two_value_ids = [''dpm1'', ''fpm1'', ''dpm2'', ''fpm2'', ''dpm3'', ''fpm3'']"

definition single_value_ids :: "string list" where
  "single_value_ids =
    [''adsc'', ''vtic'', ''date'', ''ngtf'', ''ltarf'', ''east'',
     ''easf01'', ''easf02'', ''easf03'', ''easf04'', ''easf05'',
     ''easf06'', ''easf07'', ''easf08'', ''easf09'', ''easf10'',
     ''easd01'', ''easd02'', ''easd03'', ''easd04'', ''eait'',
     ''erq1'', ''erq2'', ''erq3'', ''erq4'',
     ''irms1'', ''irms2'', ''irms3'', ''urms1'', ''urms2'', ''urms3'',
     ''pref'', ''pcoup'', ''sinsts'', ''sinsts1'', ''sinsts2'', ''sinsts3'', ''sinsti'',
     ''stge'', ''msg1'', ''msg2'', ''prm'', ''relais'', ''ntarf'',
     ''njourf'', ''njourf+1'', ''pjourf+1'', ''ppointe'']"

definition arity :: "string \<Rightarrow> nat" where
  "arity k = (if k \<in> set two_value_ids then 2 else if k \<in> set single_value_ids then 1 else 0)"

text \<open>The number of samples that a collection cycle emits, when it returns.\<close>

definition sample_count :: "(Metric list \<times> log_entry list) outcome option \<Rightarrow> nat option" where
  "sample_count r = (case r of Some (Return (ms, log)) \<Rightarrow> Some (length ms) | _ \<Rightarrow> None)"

section \<open>Properties\<close>

subsection \<open>Library functions\<close>

lemma Contains_single: "Contains s [c] = (c \<in> set s)"
  by (induction s) auto

lemma Split_not_Nil: "Split s sep \<noteq> []"
  by (induction s) (auto split: list.splits)

lemma lower_byte_Char:
  "lower_byte (Char b0 b1 b2 b3 b4 b5 b6 b7) =
     (if 65 \<le> (of_char (Char b0 b1 b2 b3 b4 b5 b6 b7) :: nat)
         \<and> (of_char (Char b0 b1 b2 b3 b4 b5 b6 b7) :: nat) \<le> 90
      then Char b0 b1 b2 b3 b4 True b6 b7 else Char b0 b1 b2 b3 b4 b5 b6 b7)"
  by (cases b0; cases b1; cases b2; cases b3; cases b4; cases b5; cases b6; cases b7;
      simp add: lower_byte_def char_of_def bit_Suc_0_iff)

subsection \<open>Parsing numbers\<close>

lemma digitVal_le: "isDigit c \<Longrightarrow> digitVal c \<le> 9"
  by (auto simp: isDigit_def digitVal_def)

lemma ParseUint_loop_le:
  "n \<le> maxVal \<Longrightarrow> fst (ParseUint_loop maxVal n cs) \<le> maxVal"
  by (induction cs arbitrary: n) (auto simp: Let_def)

lemma ParseUint_le: "fst (ParseUint s bitSize) \<le> 2 ^ bitSize - 1"
  by (simp add: ParseUint_def ParseUint_loop_le)

lemma ParseUint_loop_syntax:
  "snd (ParseUint_loop maxVal n cs) = Some ErrSyntax \<Longrightarrow> fst (ParseUint_loop maxVal n cs) = 0"
  by (induction cs arbitrary: n) (auto simp: Let_def split: if_splits)

lemma ParseUint_syntax:
  "snd (ParseUint s bitSize) = Some ErrSyntax \<Longrightarrow> fst (ParseUint s bitSize) = 0"
  by (auto simp: ParseUint_def ParseUint_loop_syntax split: if_splits)

lemma ParseInt_syntax:
  "snd (ParseInt s bitSize) = Some ErrSyntax \<Longrightarrow> fst (ParseInt s bitSize) = 0"
  by (auto simp: ParseInt_def Let_def split: if_splits prod.splits)

lemma ParseUint_loop_step:
  assumes "isDigit c" and "n < 2 ^ 32"
  shows "ParseUint_loop maxVal n (c # cs) =
           (if n * 10 + digitVal c > maxVal then (maxVal, Some ErrRange)
            else ParseUint_loop maxVal (n * 10 + digitVal c) cs)"
proof -
  have d9: "digitVal c \<le> 9" using assms(1) by (rule digitVal_le)
  have a: "n * 10 mod 18446744073709551616 = n * 10" using assms(2) by simp
  have b: "(n * 10 + digitVal c) mod 18446744073709551616 = n * 10 + digitVal c"
    using assms(2) d9 by simp
  have c: "\<not> cutoff64 \<le> n" using assms(2) by (simp add: cutoff64_def)
  show ?thesis using assms(1) c by (simp add: Let_def a b)
qed

lemma ParseUint_loop_digits:
  assumes "list_all isDigit cs" and "maxVal < 2 ^ 32" and "n \<le> maxVal"
  shows "ParseUint_loop maxVal n cs =
           (if n * 10 ^ length cs + decval cs \<le> maxVal
            then (n * 10 ^ length cs + decval cs, None) else (maxVal, Some ErrRange))"
  using assms
proof (induction cs arbitrary: n)
  case Nil
  then show ?case by simp
next
  case (Cons c cs)
  let ?d = "digitVal c"
  from Cons.prems have dig: "isDigit c" and rest: "list_all isDigit cs" by simp_all
  have nlt: "n < 2 ^ 32" using Cons.prems by simp
  note step = ParseUint_loop_step [OF dig nlt, of maxVal cs]
  have total: "n * 10 ^ length (c # cs) + decval (c # cs) = (n * 10 + ?d) * 10 ^ length cs + decval cs"
    by (simp add: algebra_simps)
  show ?case
  proof (cases "n * 10 + ?d > maxVal")
    case True
    have "n * 10 + ?d \<le> (n * 10 + ?d) * 10 ^ length cs"
      by simp
    with True have "maxVal < (n * 10 + ?d) * 10 ^ length cs + decval cs" by linarith
    then have "\<not> n * 10 ^ length (c # cs) + decval (c # cs) \<le> maxVal"
      by (simp only: total not_le)
    moreover have "ParseUint_loop maxVal n (c # cs) = (maxVal, Some ErrRange)"
      using True by (simp only: step if_True)
    ultimately show ?thesis by simp
  next
    case False
    then have le: "n * 10 + ?d \<le> maxVal" by simp
    have "ParseUint_loop maxVal n (c # cs) = ParseUint_loop maxVal (n * 10 + ?d) cs"
      using False by (simp only: step if_False)
    also have "\<dots> = (if (n * 10 + ?d) * 10 ^ length cs + decval cs \<le> maxVal
            then ((n * 10 + ?d) * 10 ^ length cs + decval cs, None) else (maxVal, Some ErrRange))"
      using Cons.IH [OF rest Cons.prems(2) le] .
    finally show ?thesis by (simp only: total)
  qed
qed

lemma ParseUint_digits:
  assumes "tok \<noteq> []" and "list_all isDigit tok" and "bitSize \<le> 32"
  shows "ParseUint tok bitSize =
           (if decval tok \<le> 2 ^ bitSize - 1 then (decval tok, None)
            else (2 ^ bitSize - 1, Some ErrRange))"
proof -
  have "(2::nat) ^ bitSize \<le> 2 ^ 32" using assms(3) by (rule power_increasing) simp
  then have "(2::nat) ^ bitSize - 1 < 2 ^ 32" by simp
  from ParseUint_loop_digits [OF assms(2) this, of 0] assms(1)
  show ?thesis by (simp add: ParseUint_def)
qed

lemma decval_snoc: "decval (cs @ [c]) = decval cs * 10 + digitVal c"
  by (induction cs) (simp_all add: algebra_simps)

lemma digit_char: "d < 10 \<Longrightarrow> isDigit (char_of (48 + d)) \<and> digitVal (char_of (48 + d)) = d"
  by (simp add: isDigit_def digitVal_def)

lemma dec_not_Nil: "dec n \<noteq> []"
  by (subst dec.simps) simp

lemma dec_digits: "list_all isDigit (dec n)"
proof (induction n rule: dec.induct)
  case (1 n)
  show ?case
  proof (cases "n < 10")
    case True
    then show ?thesis by (subst dec.simps) (simp add: digit_char)
  next
    case False
    with 1 show ?thesis by (subst dec.simps) (simp add: digit_char)
  qed
qed

lemma decval_dec: "decval (dec n) = n"
proof (induction n rule: dec.induct)
  case (1 n)
  show ?case
  proof (cases "n < 10")
    case True
    then show ?thesis by (subst dec.simps) (simp add: digit_char)
  next
    case False
    with 1 show ?thesis by (subst dec.simps) (simp add: decval_snoc digit_char)
  qed
qed

lemma ParseUint_dec:
  "bitSize \<le> 32 \<Longrightarrow> n < 2 ^ bitSize \<Longrightarrow> ParseUint (dec n) bitSize = (n, None)"
  by (simp add: ParseUint_digits dec_not_Nil dec_digits decval_dec)



lemma ParseInt_range:
  assumes "0 < bitSize"
  shows "- (2 ^ (bitSize - 1)) \<le> fst (ParseInt s bitSize) \<and> fst (ParseInt s bitSize) < 2 ^ (bitSize - 1)"
proof -
  define c :: nat where "c = 2 ^ (bitSize - 1)"
  have cpos: "0 < c" by (simp add: c_def)
  have ci: "(2::int) ^ (bitSize - 1) = int c" by (simp add: c_def)
  obtain un err where pu: "ParseUint (if hd s = CHR ''+'' \<or> hd s = CHR ''-'' then tl s else s) bitSize = (un, err)"
    by (cases "ParseUint (if hd s = CHR ''+'' \<or> hd s = CHR ''-'' then tl s else s) bitSize")
  have "fst (ParseInt s bitSize) =
          (if s = [] then 0 else if err = Some ErrSyntax then 0
           else if hd s \<noteq> CHR ''-'' \<and> un \<ge> c then int c - 1
           else if hd s = CHR ''-'' \<and> un > c then - int c
           else if hd s = CHR ''-'' then - int un else int un)"
    using pu by (simp add: ParseInt_def Let_def c_def)
  then show ?thesis unfolding ci using cpos by (auto split: if_splits)
qed

lemma digit_not_sign: "isDigit c \<Longrightarrow> c \<noteq> CHR ''+'' \<and> c \<noteq> CHR ''-''"
  by (auto simp: isDigit_def)

lemma half_le: "0 < bitSize \<Longrightarrow> (2::nat) ^ (bitSize - 1) \<le> 2 ^ bitSize - 1"
  by (cases bitSize) simp_all

lemma ParseInt_digits:
  assumes "tok \<noteq> []" and "list_all isDigit tok" and "bitSize \<le> 32" and "0 < bitSize"
  shows "ParseInt tok bitSize =
           (if decval tok < 2 ^ (bitSize - 1) then (int (decval tok), None)
            else (2 ^ (bitSize - 1) - 1, Some ErrRange))"
proof -
  from assms(1,2) have "isDigit (hd tok)" by (cases tok) simp_all
  then have ns: "hd tok \<noteq> CHR ''+''" "hd tok \<noteq> CHR ''-''" using digit_not_sign by blast+
  note pu = ParseUint_digits [OF assms(1,2,3)]
  note h = half_le [OF assms(4)]
  show ?thesis
  proof (cases "decval tok \<le> 2 ^ bitSize - 1")
    case True
    then have "ParseUint tok bitSize = (decval tok, None)" by (simp add: pu)
    then show ?thesis using assms(1) ns by (simp add: ParseInt_def Let_def not_le)
  next
    case False
    then have "ParseUint tok bitSize = (2 ^ bitSize - 1, Some ErrRange)" by (simp add: pu)
    moreover have "\<not> decval tok < 2 ^ (bitSize - 1)" using False h by linarith
    ultimately show ?thesis using assms(1) ns h by (simp add: ParseInt_def Let_def)
  qed
qed

lemma half_less: "1 < bitSize \<Longrightarrow> (2::nat) ^ (bitSize - 1) < 2 ^ bitSize - 1"
proof -
  assume "1 < bitSize"
  then obtain k where k: "bitSize = Suc (Suc k)" by (cases bitSize; cases "bitSize - 1") auto
  have "(1::nat) \<le> 2 ^ k" by simp
  then have "(1::nat) < 2 * 2 ^ k" by linarith
  then show ?thesis unfolding k by simp
qed

lemma ParseInt_minus_digits:
  assumes "tok \<noteq> []" and "list_all isDigit tok" and "bitSize \<le> 32" and "1 < bitSize"
  shows "ParseInt (CHR ''-'' # tok) bitSize =
           (if decval tok \<le> 2 ^ (bitSize - 1) then (- int (decval tok), None)
            else (- (2 ^ (bitSize - 1)), Some ErrRange))"
proof -
  note pu = ParseUint_digits [OF assms(1,2,3)]
  note h = half_less [OF assms(4)]
  show ?thesis
  proof (cases "decval tok \<le> 2 ^ bitSize - 1")
    case True
    then have "ParseUint tok bitSize = (decval tok, None)" by (simp add: pu)
    then show ?thesis by (simp add: ParseInt_def Let_def not_less)
  next
    case False
    then have "ParseUint tok bitSize = (2 ^ bitSize - 1, Some ErrRange)" by (simp add: pu)
    moreover have "\<not> decval tok \<le> 2 ^ (bitSize - 1)" using False h by linarith
    ultimately show ?thesis using h by (simp add: ParseInt_def Let_def)
  qed
qed

lemma ParseInt_dec_int:
  assumes "bitSize \<le> 32" and "1 < bitSize"
    and "- (2 ^ (bitSize - 1)) \<le> i" and "i < 2 ^ (bitSize - 1)"
  shows "ParseInt (dec_int i) bitSize = (i, None)"
proof (cases "i < 0")
  case True
  have "int (nat (- i)) \<le> int (2 ^ (bitSize - 1))" using True assms(3) by simp
  then have "nat (- i) \<le> 2 ^ (bitSize - 1)" by (simp only: of_nat_le_iff)
  then show ?thesis
    using True assms(1,2)
    by (simp add: dec_int_def ParseInt_minus_digits dec_not_Nil dec_digits decval_dec)
next
  case False
  have "int (nat i) < int (2 ^ (bitSize - 1))" using False assms(4) by simp
  then have "nat i < 2 ^ (bitSize - 1)" by (simp only: of_nat_less_iff)
  then show ?thesis
    using False assms(1,2)
    by (simp add: dec_int_def ParseInt_digits dec_not_Nil dec_digits decval_dec)
qed

subsection \<open>The dispatch on the identifier\<close>

lemma proceedLine_tokens:
  "Split line HT = idt # rest \<Longrightarrow> proceedLine ul v line = dispatch (ToLower ul idt) (idt # rest) v"
  by (simp add: proceedLine_def index_def)

lemma dispatch_unsigned:
  "dispatch ''east'' (idt # tok # rest) v = Inr (v\<lparr>east := word_of_nat (fst (ParseUint tok 32))\<rparr>)"
  "dispatch ''easf01'' (idt # tok # rest) v = Inr (v\<lparr>easf01 := word_of_nat (fst (ParseUint tok 32))\<rparr>)"
  "dispatch ''easf02'' (idt # tok # rest) v = Inr (v\<lparr>easf02 := word_of_nat (fst (ParseUint tok 32))\<rparr>)"
  "dispatch ''easf03'' (idt # tok # rest) v = Inr (v\<lparr>easf03 := word_of_nat (fst (ParseUint tok 32))\<rparr>)"
  "dispatch ''easf04'' (idt # tok # rest) v = Inr (v\<lparr>easf04 := word_of_nat (fst (ParseUint tok 32))\<rparr>)"
  "dispatch ''easf05'' (idt # tok # rest) v = Inr (v\<lparr>easf05 := word_of_nat (fst (ParseUint tok 32))\<rparr>)"
  "dispatch ''easf06'' (idt # tok # rest) v = Inr (v\<lparr>easf06 := word_of_nat (fst (ParseUint tok 32))\<rparr>)"
  "dispatch ''easf07'' (idt # tok # rest) v = Inr (v\<lparr>easf07 := word_of_nat (fst (ParseUint tok 32))\<rparr>)"
  "dispatch ''easf08'' (idt # tok # rest) v = Inr (v\<lparr>easf08 := word_of_nat (fst (ParseUint tok 32))\<rparr>)"
  "dispatch ''easf09'' (idt # tok # rest) v = Inr (v\<lparr>easf09 := word_of_nat (fst (ParseUint tok 32))\<rparr>)"
  "dispatch ''easf10'' (idt # tok # rest) v = Inr (v\<lparr>easf10 := word_of_nat (fst (ParseUint tok 32))\<rparr>)"
  "dispatch ''easd01'' (idt # tok # rest) v = Inr (v\<lparr>easd01 := word_of_nat (fst (ParseUint tok 32))\<rparr>)"
  "dispatch ''easd02'' (idt # tok # rest) v = Inr (v\<lparr>easd02 := word_of_nat (fst (ParseUint tok 32))\<rparr>)"
  "dispatch ''easd03'' (idt # tok # rest) v = Inr (v\<lparr>easd03 := word_of_nat (fst (ParseUint tok 32))\<rparr>)"
  "dispatch ''easd04'' (idt # tok # rest) v = Inr (v\<lparr>easd04 := word_of_nat (fst (ParseUint tok 32))\<rparr>)"
  "dispatch ''eait'' (idt # tok # rest) v = Inr (v\<lparr>eait := word_of_nat (fst (ParseUint tok 32))\<rparr>)"
  "dispatch ''erq1'' (idt # tok # rest) v = Inr (v\<lparr>erq1 := word_of_nat (fst (ParseUint tok 32))\<rparr>)"
  "dispatch ''erq2'' (idt # tok # rest) v = Inr (v\<lparr>erq2 := word_of_nat (fst (ParseUint tok 32))\<rparr>)"
  "dispatch ''erq3'' (idt # tok # rest) v = Inr (v\<lparr>erq3 := word_of_nat (fst (ParseUint tok 32))\<rparr>)"
  "dispatch ''erq4'' (idt # tok # rest) v = Inr (v\<lparr>erq4 := word_of_nat (fst (ParseUint tok 32))\<rparr>)"
  "dispatch ''irms1'' (idt # tok # rest) v = Inr (v\<lparr>irms1 := word_of_nat (fst (ParseUint tok 16))\<rparr>)"
  "dispatch ''irms2'' (idt # tok # rest) v = Inr (v\<lparr>irms2 := word_of_nat (fst (ParseUint tok 16))\<rparr>)"
  "dispatch ''irms3'' (idt # tok # rest) v = Inr (v\<lparr>irms3 := word_of_nat (fst (ParseUint tok 16))\<rparr>)"
  "dispatch ''urms1'' (idt # tok # rest) v = Inr (v\<lparr>urms1 := word_of_nat (fst (ParseUint tok 16))\<rparr>)"
  "dispatch ''urms2'' (idt # tok # rest) v = Inr (v\<lparr>urms2 := word_of_nat (fst (ParseUint tok 16))\<rparr>)"
  "dispatch ''urms3'' (idt # tok # rest) v = Inr (v\<lparr>urms3 := word_of_nat (fst (ParseUint tok 16))\<rparr>)"
  "dispatch ''sinsts'' (idt # tok # rest) v = Inr (v\<lparr>sinsts := word_of_nat (fst (ParseUint tok 16))\<rparr>)"
  "dispatch ''sinsti'' (idt # tok # rest) v = Inr (v\<lparr>sinsti := word_of_nat (fst (ParseUint tok 16))\<rparr>)"
  "dispatch ''pref'' (idt # tok # rest) v = Inr (v\<lparr>pref := word_of_nat (fst (ParseUint tok 8))\<rparr>)"
  "dispatch ''pcoup'' (idt # tok # rest) v = Inr (v\<lparr>pcoup := word_of_nat (fst (ParseUint tok 8))\<rparr>)"
  "dispatch ''relais'' (idt # tok # rest) v = Inr (v\<lparr>relais := word_of_nat (fst (ParseUint tok 8))\<rparr>)"
  by (simp_all add: dispatch_def uint_field_def index_def)

lemma dispatch_signed:
  "dispatch ''sinsts1'' (idt # tok # rest) v = Inr (v\<lparr>sinsts1 := word_of_int (fst (ParseInt tok 16))\<rparr>)"
  "dispatch ''sinsts2'' (idt # tok # rest) v = Inr (v\<lparr>sinsts2 := word_of_int (fst (ParseInt tok 16))\<rparr>)"
  "dispatch ''sinsts3'' (idt # tok # rest) v = Inr (v\<lparr>sinsts3 := word_of_int (fst (ParseInt tok 16))\<rparr>)"
  by (simp_all add: dispatch_def int_field_def index_def)

lemma dispatch_peak:
  "dispatch ''dpm1'' (idt # t1 # t2 # rest) v = Inr (v\<lparr>dpm1 := t2, dpm1_timestamp := t1\<rparr>)"
  "dispatch ''fpm1'' (idt # t1 # t2 # rest) v = Inr (v\<lparr>fpm1 := t2, fpm1_timestamp := t1\<rparr>)"
  "dispatch ''dpm2'' (idt # t1 # t2 # rest) v = Inr (v\<lparr>dpm2 := t2, dpm2_timestamp := t1\<rparr>)"
  "dispatch ''fpm2'' (idt # t1 # t2 # rest) v = Inr (v\<lparr>fpm2 := t2, fpm2_timestamp := t1\<rparr>)"
  "dispatch ''dpm3'' (idt # t1 # t2 # rest) v = Inr (v\<lparr>dpm3 := t2, dpm3_timestamp := t1\<rparr>)"
  "dispatch ''fpm3'' (idt # t1 # t2 # rest) v = Inr (v\<lparr>fpm3 := t2, fpm3_timestamp := t1\<rparr>)"
  by (simp_all add: dispatch_def peak_field_def index_def)



lemma ParseInt_plus_digits:
  assumes "tok \<noteq> []" and "list_all isDigit tok" and "bitSize \<le> 32" and "0 < bitSize"
  shows "ParseInt (CHR ''+'' # tok) bitSize =
           (if decval tok < 2 ^ (bitSize - 1) then (int (decval tok), None)
            else (2 ^ (bitSize - 1) - 1, Some ErrRange))"
proof -
  note pu = ParseUint_digits [OF assms(1,2,3)]
  note h = half_le [OF assms(4)]
  show ?thesis
  proof (cases "decval tok \<le> 2 ^ bitSize - 1")
    case True
    then have "ParseUint tok bitSize = (decval tok, None)" by (simp add: pu)
    then show ?thesis by (simp add: ParseInt_def Let_def not_le)
  next
    case False
    then have "ParseUint tok bitSize = (2 ^ bitSize - 1, Some ErrRange)" by (simp add: pu)
    moreover have "\<not> decval tok < 2 ^ (bitSize - 1)" using False h by linarith
    ultimately show ?thesis using h by (simp add: ParseInt_def Let_def)
  qed
qed

lemma unsigned_dispatch:
  assumes "(name, w, get) \<in> set unsigned_fields"
    and "Split line HT = idt # tok # rest" and "ToLower ul idt = name"
  shows "\<exists>v'. proceedLine ul v line = Inr v' \<and> get v' = fst (ParseUint tok w)"
proof -
  have p: "proceedLine ul v line = dispatch name (idt # tok # rest) v"
    using assms(2,3) by (simp add: proceedLine_tokens)
  have b32: "fst (ParseUint tok 32) mod 4294967296 = fst (ParseUint tok 32)"
    using ParseUint_le [of tok 32] by simp
  have b16: "fst (ParseUint tok 16) mod 65536 = fst (ParseUint tok 16)"
    using ParseUint_le [of tok 16] by simp
  have b8: "fst (ParseUint tok 8) mod 256 = fst (ParseUint tok 8)"
    using ParseUint_le [of tok 8] by simp
  show ?thesis
    using assms(1) unfolding p unsigned_fields_def
    by (auto simp: dispatch_unsigned unat_of_nat b32 b16 b8)
qed

lemma signed_dispatch:
  assumes "(name, w, get) \<in> set signed_fields"
    and "Split line HT = idt # tok # rest" and "ToLower ul idt = name"
  shows "\<exists>v'. proceedLine ul v line = Inr v' \<and> get v' = fst (ParseInt tok w)"
proof -
  have p: "proceedLine ul v line = dispatch name (idt # tok # rest) v"
    using assms(2,3) by (simp add: proceedLine_tokens)
  have "sint (word_of_int (fst (ParseInt tok 16)) :: 16 word) = fst (ParseInt tok 16)"
    using ParseInt_range [of 16 tok]
    by (simp add: sint_sbintrunc' signed_take_bit_int_eq_self)
  then show ?thesis
    using assms(1) unfolding p signed_fields_def
    by (auto simp: dispatch_signed)
qed

lemma peak_dispatch:
  assumes "(name, label, timestamp) \<in> set peak_fields"
    and "Split line HT = idt # t1 # t2 # rest" and "ToLower ul idt = name"
  shows "\<exists>v'. proceedLine ul v line = Inr v' \<and> label v' = t2 \<and> timestamp v' = t1"
proof -
  have p: "proceedLine ul v line = dispatch name (idt # t1 # t2 # rest) v"
    using assms(2,3) by (simp add: proceedLine_tokens)
  show ?thesis
    using assms(1) unfolding p peak_fields_def
    by (auto simp: dispatch_peak)
qed

lemma unsigned_widths: "(name, w, get) \<in> set unsigned_fields \<Longrightarrow> 0 < w \<and> w \<le> 32"
  by (auto simp: unsigned_fields_def)

lemma signed_widths: "(name, w, get) \<in> set signed_fields \<Longrightarrow> w = 16"
  by (auto simp: signed_fields_def)

subsection \<open>One step of the frame reader\<close>

lemma loop_ReadFail:
  "readSerial_loop ul (ReadFail err ## s) started v = Some (Return (Some err, v))"
  by (subst readSerial_loop.simps) simp

lemma loop_Line:
  "readSerial_loop ul (Line line ## s) started v =
     (if started \<and> ETX \<in> set line then Some (Return (None, v))
      else if started \<or> STX \<in> set line
           then (case proceedLine ul v line of
                   Inl p \<Rightarrow> Some (Panic p)
                 | Inr v' \<Rightarrow> readSerial_loop ul s True v')
           else readSerial_loop ul s False v)"
  by (subst readSerial_loop.simps) (simp add: Contains_single split: sum.split)

lemma loop_before_start:
  "\<forall>l\<in>set pre. STX \<notin> set l \<Longrightarrow>
     readSerial_loop ul (map Line pre @- s) False v = readSerial_loop ul s False v"
  by (induction pre) (simp_all add: loop_Line)

lemma loop_in_frame:
  "\<forall>l\<in>set fs. ETX \<notin> set l \<Longrightarrow>
     readSerial_loop ul (map Line fs @- s) True v =
       (case decode_lines ul v fs of
          Inl p \<Rightarrow> Some (Panic p)
        | Inr v' \<Rightarrow> readSerial_loop ul s True v')"
  by (induction fs arbitrary: v) (simp_all add: loop_Line split: sum.splits)

lemma loop_frame:
  assumes "STX \<in> set start" and "\<forall>l\<in>set fs. ETX \<notin> set l"
  shows "readSerial_loop ul (map Line (start # fs) @- s) False v =
           (case decode_lines ul v (start # fs) of
              Inl p \<Rightarrow> Some (Panic p)
            | Inr v' \<Rightarrow> readSerial_loop ul s True v')"
  using assms by (simp add: loop_Line loop_in_frame split: sum.splits)

text \<open>
  When the loop returns \<^verbatim>\<open>nil\<close>, it has read a line with the end byte, while inside
  a frame: either it started inside one, or an earlier line had the start byte.
\<close>

lemma loop_returns_nil:
  assumes "readSerial_loop ul s started v = Some y"
  shows "\<forall>v'. y = Return (None, v') \<longrightarrow>
           (\<exists>j l. s !! j = Line l \<and> ETX \<in> set l
              \<and> (started \<or> (\<exists>i<j. \<exists>l0. s !! i = Line l0 \<and> STX \<in> set l0)))"
proof (induct rule: readSerial_loop.raw_induct [OF _ assms, case_names step])
  case (step loop ul s started v y)
  show ?case
  proof (intro allI impI)
    fix v' assume y: "y = Return (None, v')"
    show "\<exists>j l. s !! j = Line l \<and> ETX \<in> set l
              \<and> (started \<or> (\<exists>i<j. \<exists>l0. s !! i = Line l0 \<and> STX \<in> set l0))"
    proof (cases "shd s")
      case (ReadFail e)
      with step(2) y show ?thesis by simp
    next
      case (Line l)
      show ?thesis
      proof (cases "started \<and> ETX \<in> set l")
        case True
        then have "s !! 0 = Line l \<and> ETX \<in> set l \<and> started" using Line by simp
        then show ?thesis by blast
      next
        case False
        show ?thesis
        proof (cases "started \<or> STX \<in> set l")
          case True
          with False Line step(2) y obtain v1 where
            r: "loop ul (stl s) True v1 = Some y"
            by (auto simp: Contains_single split: sum.splits if_splits)
          from step(1) [OF r] y obtain j l' where
            j: "stl s !! j = Line l'" "ETX \<in> set l'" by blast
          have "started \<or> (\<exists>i<Suc j. \<exists>l0. s !! i = Line l0 \<and> STX \<in> set l0)"
          proof (cases started)
            case True then show ?thesis by simp
          next
            case False
            with \<open>started \<or> STX \<in> set l\<close> have "s !! 0 = Line l \<and> STX \<in> set l" using Line by simp
            then show ?thesis by blast
          qed
          moreover have "s !! Suc j = Line l'" using j(1) by simp
          ultimately show ?thesis using j(2) by blast
        next
          case F2: False
          with False Line step(2) have r: "loop ul (stl s) False v = Some y"
            by (auto simp: Contains_single split: sum.splits if_splits)
          from step(1) [OF r] y obtain j l' i l0 where
            j: "stl s !! j = Line l'" "ETX \<in> set l'" "i < j" "stl s !! i = Line l0" "STX \<in> set l0"
            by blast
          then have "s !! Suc j = Line l'" "Suc i < Suc j" "s !! Suc i = Line l0" by simp_all
          with j(2,5) show ?thesis by blast
        qed
      qed
    qed
  qed
qed

text \<open>
  A device that sends lines for ever and never a start byte: \<^verbatim>\<open>readSerial\<close> does not
  return.
\<close>

lemma loop_never_returns:
  assumes "\<forall>n. \<exists>l. s !! n = Line l \<and> STX \<notin> set l"
  shows "readSerial_loop ul s False v = None"
proof (cases "readSerial_loop ul s False v")
  case None
  then show ?thesis .
next
  case (Some y)
  have "started = False \<and> (\<forall>n. \<exists>l. s !! n = Line l \<and> STX \<notin> set l) \<longrightarrow> False"
    if "readSerial_loop ul s started v = Some y" for started
  proof (induct rule: readSerial_loop.raw_induct [OF _ that, case_names step])
    case (step loop ul s started v y)
    show ?case
    proof
      assume a: "started = False \<and> (\<forall>n. \<exists>l. s !! n = Line l \<and> STX \<notin> set l)"
      then obtain l where l: "s !! 0 = Line l" "STX \<notin> set l" by blast
      then have "shd s = Line l" by simp
      with step(2) a l(2) have r: "loop ul (stl s) False v = Some y"
        by (simp add: Contains_single)
      have "\<forall>n. \<exists>l. stl s !! n = Line l \<and> STX \<notin> set l"
      proof
        fix n
        from a obtain l' where "s !! Suc n = Line l'" "STX \<notin> set l'" by blast
        then show "\<exists>l. stl s !! n = Line l \<and> STX \<notin> set l" by simp
      qed
      with step(1) [OF r] show False by simp
    qed
  qed
  with Some assms show ?thesis by blast
qed


text \<open>The equations that evaluate the decoder on a concrete line.\<close>

lemmas decode_eval = proceedLine_def index_def ToLower_def lower_byte_Char dispatch_def
  uint_field_def int_field_def text_field_def peak_field_def
  ParseUint_def ParseInt_def isDigit_def digitVal_def cutoff64_def

text \<open>A line with at least two payload tokens never makes the decoder panic.\<close>

lemma proceedLine_enough_tokens:
  assumes "3 \<le> length (Split line HT)"
  shows "\<exists>v'. proceedLine ul v line = Inr v'"
proof -
  from assms obtain idt t1 t2 rest where sp: "Split line HT = idt # t1 # t2 # rest"
    by (cases "Split line HT"; cases "tl (Split line HT)"; cases "tl (tl (Split line HT))") auto
  have i: "index (idt # t1 # t2 # rest) 1 = Inr t1" "index (idt # t1 # t2 # rest) 2 = Inr t2"
    by (simp_all add: index_def)
  show ?thesis
    unfolding proceedLine_tokens [OF sp] dispatch_def text_field_def uint_field_def
      int_field_def peak_field_def i
    by simp
qed

text \<open>
  The decoder panics exactly on the lines that have no more tokens than the arity of
  their identifier.
\<close>

lemma dispatch_one_token:
  "dispatch k [d0] v = (if 0 < arity k then Inl (IndexOutOfRange (arity k) 1) else Inr v)"
  by (simp add: dispatch_def arity_def two_value_ids_def single_value_ids_def
        text_field_def uint_field_def int_field_def peak_field_def index_def)

lemma dispatch_two_tokens:
  "\<exists>v'. dispatch k [d0, d1] v = (if 1 < arity k then Inl (IndexOutOfRange (arity k) 2) else Inr v')"
  by (simp add: dispatch_def arity_def two_value_ids_def single_value_ids_def
        text_field_def uint_field_def int_field_def peak_field_def index_def)

lemma arity_le_2: "arity k \<le> 2"
  by (simp add: arity_def)

lemma proceedLine_panics_iff:
  "(\<exists>p. proceedLine ul v line = Inl p)
     \<longleftrightarrow> length (Split line HT) \<le> arity (ToLower ul (hd (Split line HT)))"
proof -
  obtain d0 ds where sp: "Split line HT = d0 # ds"
    using Split_not_Nil [of line HT] by (cases "Split line HT") auto
  show ?thesis
  proof (cases ds)
    case Nil
    then show ?thesis
      using sp by (simp add: proceedLine_tokens dispatch_one_token)
  next
    case (Cons d1 ds')
    show ?thesis
    proof (cases ds')
      case Nil
      with Cons sp have "Split line HT = [d0, d1]" by simp
      then show ?thesis
        using dispatch_two_tokens [of "ToLower ul d0" d0 d1 v] arity_le_2 [of "ToLower ul d0"]
        by (auto simp: proceedLine_tokens split: if_splits)
    next
      case (Cons d2 ds'')
      with \<open>ds = d1 # ds'\<close> sp have l: "3 \<le> length (Split line HT)" by simp
      from proceedLine_enough_tokens [OF l, of ul v] obtain v' where
        "proceedLine ul v line = Inr v'" by blast
      with arity_le_2 [of "ToLower ul (hd (Split line HT))"] l
      show ?thesis by simp
    qed
  qed
qed

text \<open>The zero record projects to 37 metrics: every label value is valid.\<close>

lemma send_all_Inr: "send_all xs = Inr ms \<Longrightarrow> map Inr ms = xs"
  by (induction xs arbitrary: ms) (auto split: sum.splits)

lemma zero_record_metrics:
  "\<exists>ms. send_all (metrics (NewLinkyCollector dev baud fsize par stop) linkyValues0) = Inr ms
        \<and> length ms = 37"
  by (simp add: metrics_def NewLinkyCollector_def MustNewConstMetric_def linkyValues0_def byte_in_def)

subsection \<open>Failure to open the device\<close>

text \<open>
  C1, as stated, fails: with a device that cannot be opened the cycle does not come back
  with a logged, recoverable error; the process exits with status 1.
\<close>

theorem open_failure_is_fatal_example:
  "Collect id (NewLinkyCollector ''/dev/serial0'' 1200 0 0 0)
       (Inl (DeviceError ''no such file or directory''))
     = Some (Exit 1)
   \<and> Collect id (NewLinkyCollector ''/dev/serial0'' 1200 0 0 0)
       (Inl (DeviceError ''no such file or directory''))
     \<noteq> Some (Return ([], [Errorf ''Unable to read telemetry information : %s''
                                  (DeviceError ''no such file or directory'')]))"
  by (simp add: Collect_def readSerial_def)

text \<open>
  C1 (amended): if the serial device cannot be opened at the start of a collection
  cycle, the cycle yields no values and no metrics, and the failure is fatal:
  \<^verbatim>\<open>log.Fatal\<close> ends the process with exit status 1, whatever the error, so no later
  cycle retries.
\<close>

theorem open_failure_exits:
  "Collect ul collector (Inl err) = Some (Exit 1)"
  by (simp add: Collect_def readSerial_def)

subsection \<open>The line decoder on short lines\<close>

text \<open>
  C2 holds for lines with enough tokens only. The code at the claim's own example: the
  in-frame line \<^verbatim>\<open>east\<close> without a tab has one token, \<^verbatim>\<open>data[1]\<close> is out of range
  and the decoder panics; a peak-management line with one payload token panics on
  \<^verbatim>\<open>data[2]\<close>; the panic leaves \<^verbatim>\<open>readSerial\<close> and \<^verbatim>\<open>Collect\<close>, and no metric
  is sent.
\<close>

theorem short_line_panics:
  "proceedLine ul v ''east'' = Inl (IndexOutOfRange 1 1)
   \<and> proceedLine ul v (''dpm1'' @ HT # ''231201120000'') = Inl (IndexOutOfRange 2 2)
   \<and> Collect ul collector (Inr (Line [STX] ## Line ''east'' ## s)) = Some (Panic (IndexOutOfRange 1 1))"
  by (simp add: Collect_def readSerial_def loop_Line decode_eval)

subsection \<open>Numeric fields\<close>

text \<open>
  C3, as stated, fails: \<^verbatim>\<open>east\<close> is 1234567 after a valid line, and a following line
  \<^verbatim>\<open>east<TAB>abc\<close> in the same frame sets it to 0.
\<close>

theorem parse_failure_overwrites_example:
  "readSerial id (Inr (Line [STX] ## Line (''east'' @ HT # ''1234567'') ## Line [ETX] ## sconst (ReadFail EOF))) linkyValues0
     = Some (Return (None, linkyValues0\<lparr>east := 1234567\<rparr>))
   \<and> readSerial id (Inr (Line [STX] ## Line (''east'' @ HT # ''1234567'') ## Line (''east'' @ HT # ''abc'')
        ## Line [ETX] ## sconst (ReadFail EOF))) linkyValues0
     = Some (Return (None, linkyValues0\<lparr>east := 0\<rparr>))
   \<and> east (linkyValues0\<lparr>east := 0\<rparr>) \<noteq> east (linkyValues0\<lparr>east := 1234567\<rparr>)"
  by (simp add: readSerial_def loop_Line decode_eval)

text \<open>
  C3 (amended): for every numeric field, decoding a line whose payload token the parser
  rejects with a syntax error stores 0 in that field, whatever its previous value, and
  does not abort the frame: the decoder returns, and the frame reader goes on with the
  next line.
\<close>

theorem parse_failure_stores_zero:
  assumes "Split line HT = idt # tok # rest" and "ToLower ul idt = name"
  shows "((name, w, get) \<in> set unsigned_fields \<and> snd (ParseUint tok w) = Some ErrSyntax \<longrightarrow>
            (\<exists>v'. proceedLine ul v line = Inr v' \<and> get v' = 0
               \<and> (ETX \<notin> set line \<longrightarrow>
                    readSerial_loop ul (Line line ## s) True v = readSerial_loop ul s True v')))
       \<and> ((name, w, sget) \<in> set signed_fields \<and> snd (ParseInt tok w) = Some ErrSyntax \<longrightarrow>
            (\<exists>v'. proceedLine ul v line = Inr v' \<and> sget v' = 0
               \<and> (ETX \<notin> set line \<longrightarrow>
                    readSerial_loop ul (Line line ## s) True v = readSerial_loop ul s True v')))"
proof (intro conjI impI; elim conjE)
  assume f: "(name, w, get) \<in> set unsigned_fields" and e: "snd (ParseUint tok w) = Some ErrSyntax"
  from unsigned_dispatch [OF f assms, of v] obtain v'
    where v': "proceedLine ul v line = Inr v'" "get v' = fst (ParseUint tok w)" by blast
  have "get v' = 0" using v'(2) ParseUint_syntax [OF e] by simp
  with v'(1) show "\<exists>v'. proceedLine ul v line = Inr v' \<and> get v' = 0
      \<and> (ETX \<notin> set line \<longrightarrow> readSerial_loop ul (Line line ## s) True v = readSerial_loop ul s True v')"
    by (simp add: loop_Line)
next
  assume f: "(name, w, sget) \<in> set signed_fields" and e: "snd (ParseInt tok w) = Some ErrSyntax"
  from signed_dispatch [OF f assms, of v] obtain v'
    where v': "proceedLine ul v line = Inr v'" "sget v' = fst (ParseInt tok w)" by blast
  have "sget v' = 0" using v'(2) ParseInt_syntax [OF e] by simp
  with v'(1) show "\<exists>v'. proceedLine ul v line = Inr v' \<and> sget v' = 0
      \<and> (ETX \<notin> set line \<longrightarrow> readSerial_loop ul (Line line ## s) True v = readSerial_loop ul s True v')"
    by (simp add: loop_Line)
qed

text \<open>
  C3, witness: \<^verbatim>\<open>east<TAB>abc\<close> on a record whose \<^verbatim>\<open>east\<close> is 1234567, and
  \<^verbatim>\<open>sinsts1<TAB>4x\<close> on a record whose \<^verbatim>\<open>sinsts1\<close> is -42.
\<close>

theorem parse_failure_stores_zero_witness:
  "(Split (''east'' @ HT # ''abc'') HT = [''east'', ''abc'']
      \<and> ToLower id ''east'' = ''east''
      \<and> (''east'', 32, \<lambda>v. unat (east v)) \<in> set unsigned_fields
      \<and> snd (ParseUint ''abc'' 32) = Some ErrSyntax
      \<and> ETX \<notin> set (''east'' @ HT # ''abc'')
      \<and> (\<exists>v'. proceedLine id (linkyValues0\<lparr>east := 1234567\<rparr>) (''east'' @ HT # ''abc'') = Inr v'
            \<and> unat (east v') = 0
            \<and> readSerial_loop id (Line (''east'' @ HT # ''abc'') ## sconst (ReadFail EOF)) True
                 (linkyValues0\<lparr>east := 1234567\<rparr>)
               = readSerial_loop id (sconst (ReadFail EOF)) True v'))
   \<and> (Split (''sinsts1'' @ HT # ''4x'') HT = [''sinsts1'', ''4x'']
      \<and> ToLower id ''sinsts1'' = ''sinsts1''
      \<and> (''sinsts1'', 16, \<lambda>v. sint (sinsts1 v)) \<in> set signed_fields
      \<and> snd (ParseInt ''4x'' 16) = Some ErrSyntax
      \<and> ETX \<notin> set (''sinsts1'' @ HT # ''4x'')
      \<and> (\<exists>v'. proceedLine id (linkyValues0\<lparr>sinsts1 := - 42\<rparr>) (''sinsts1'' @ HT # ''4x'') = Inr v'
            \<and> sint (sinsts1 v') = 0
            \<and> readSerial_loop id (Line (''sinsts1'' @ HT # ''4x'') ## sconst (ReadFail EOF)) True
                 (linkyValues0\<lparr>sinsts1 := - 42\<rparr>)
               = readSerial_loop id (sconst (ReadFail EOF)) True v'))"
proof -
  have a: "Split (''east'' @ HT # ''abc'') HT = ''east'' # ''abc'' # []" by simp
  have b: "ToLower id ''east'' = ''east''" by (simp add: ToLower_def lower_byte_Char)
  have c: "(''east'', 32, \<lambda>v. unat (east v)) \<in> set unsigned_fields"
    by (simp add: unsigned_fields_def)
  have d: "snd (ParseUint ''abc'' 32) = Some ErrSyntax" by (simp add: ParseUint_def isDigit_def)
  have e: "ETX \<notin> set (''east'' @ HT # ''abc'')" by simp
  have a': "Split (''sinsts1'' @ HT # ''4x'') HT = ''sinsts1'' # ''4x'' # []" by simp
  have b': "ToLower id ''sinsts1'' = ''sinsts1''" by (simp add: ToLower_def lower_byte_Char)
  have c': "(''sinsts1'', 16, \<lambda>v. sint (sinsts1 v)) \<in> set signed_fields"
    by (simp add: signed_fields_def)
  have d': "snd (ParseInt ''4x'' 16) = Some ErrSyntax"
    by (simp add: ParseInt_def ParseUint_def isDigit_def digitVal_def cutoff64_def)
  have e': "ETX \<notin> set (''sinsts1'' @ HT # ''4x'')" by simp
  from parse_failure_stores_zero [OF a b, where w = 32 and get = "\<lambda>v. unat (east v)"
      and v = "linkyValues0\<lparr>east := 1234567\<rparr>" and s = "sconst (ReadFail EOF)"] c d e
  have 1: "\<exists>v'. proceedLine id (linkyValues0\<lparr>east := 1234567\<rparr>) (''east'' @ HT # ''abc'') = Inr v'
            \<and> unat (east v') = 0
            \<and> readSerial_loop id (Line (''east'' @ HT # ''abc'') ## sconst (ReadFail EOF)) True
                 (linkyValues0\<lparr>east := 1234567\<rparr>)
               = readSerial_loop id (sconst (ReadFail EOF)) True v'"
    by blast
  from parse_failure_stores_zero [OF a' b', where w = 16 and sget = "\<lambda>v. sint (sinsts1 v)"
      and v = "linkyValues0\<lparr>sinsts1 := - 42\<rparr>" and s = "sconst (ReadFail EOF)"] c' d' e'
  have 2: "\<exists>v'. proceedLine id (linkyValues0\<lparr>sinsts1 := - 42\<rparr>) (''sinsts1'' @ HT # ''4x'') = Inr v'
            \<and> sint (sinsts1 v') = 0
            \<and> readSerial_loop id (Line (''sinsts1'' @ HT # ''4x'') ## sconst (ReadFail EOF)) True
                 (linkyValues0\<lparr>sinsts1 := - 42\<rparr>)
               = readSerial_loop id (sconst (ReadFail EOF)) True v'"
    by blast
  from a b c d e a' b' c' d' e' 1 2 show ?thesis by (intro conjI)
qed

text \<open>
  C8: numeric field decoding round-trips. For every unsigned field of declared width
  \<open>w\<close> and every \<open>n < 2 ^ w\<close>, decoding a line whose identifier is the field's and
  whose payload token is the base-10 text form of \<open>n\<close> stores exactly \<open>n\<close>; the same
  holds for the signed 16-bit fields over their whole range.
\<close>

theorem numeric_roundtrip:
  assumes "Split line HT = idt # tok # rest" and "ToLower ul idt = name"
  shows "((name, w, get) \<in> set unsigned_fields \<and> n < 2 ^ w \<and> tok = dec n \<longrightarrow>
            (\<exists>v'. proceedLine ul v line = Inr v' \<and> get v' = n))
       \<and> ((name, w, sget) \<in> set signed_fields \<and> - (2 ^ (w - 1)) \<le> i \<and> i < 2 ^ (w - 1)
             \<and> tok = dec_int i \<longrightarrow>
            (\<exists>v'. proceedLine ul v line = Inr v' \<and> sget v' = i))"
proof (intro conjI impI; elim conjE)
  assume f: "(name, w, get) \<in> set unsigned_fields" and n: "n < 2 ^ w" and t: "tok = dec n"
  from unsigned_widths [OF f] have w: "w \<le> 32" by simp
  from unsigned_dispatch [OF f assms, of v] obtain v'
    where v': "proceedLine ul v line = Inr v'" "get v' = fst (ParseUint tok w)" by blast
  have "get v' = n" using v'(2) ParseUint_dec [OF w n] by (simp add: t)
  with v'(1) show "\<exists>v'. proceedLine ul v line = Inr v' \<and> get v' = n" by blast
next
  assume f: "(name, w, sget) \<in> set signed_fields"
    and lo: "- (2 ^ (w - 1)) \<le> i" and hi: "i < 2 ^ (w - 1)" and t: "tok = dec_int i"
  from signed_widths [OF f] have w: "w \<le> 32" "1 < w" by simp_all
  from signed_dispatch [OF f assms, of v] obtain v'
    where v': "proceedLine ul v line = Inr v'" "sget v' = fst (ParseInt tok w)" by blast
  have "sget v' = i" using v'(2) ParseInt_dec_int [OF w lo hi] by (simp add: t)
  with v'(1) show "\<exists>v'. proceedLine ul v line = Inr v' \<and> sget v' = i" by blast
qed

text \<open>C8, witness: the largest 32-bit value in \<^verbatim>\<open>east\<close>, the least 16-bit value in \<^verbatim>\<open>sinsts1\<close>.\<close>

theorem numeric_roundtrip_witness:
  "(Split (''east'' @ HT # dec 4294967295 @ [HT]) HT = [''east'', dec 4294967295, [] ]
      \<and> ToLower id ''east'' = ''east''
      \<and> (''east'', 32, \<lambda>v. unat (east v)) \<in> set unsigned_fields
      \<and> (4294967295 :: nat) < 2 ^ 32
      \<and> (\<exists>v'. proceedLine id linkyValues0 (''east'' @ HT # dec 4294967295 @ [HT]) = Inr v'
            \<and> unat (east v') = 4294967295))
   \<and> (Split (''sinsts1'' @ HT # dec_int (- 32768) @ [HT]) HT = [''sinsts1'', dec_int (- 32768), [] ]
      \<and> ToLower id ''sinsts1'' = ''sinsts1''
      \<and> (''sinsts1'', 16, \<lambda>v. sint (sinsts1 v)) \<in> set signed_fields
      \<and> - (2 ^ (16 - 1)) \<le> (- 32768 :: int) \<and> (- 32768 :: int) < 2 ^ (16 - 1)
      \<and> (\<exists>v'. proceedLine id linkyValues0 (''sinsts1'' @ HT # dec_int (- 32768) @ [HT]) = Inr v'
            \<and> sint (sinsts1 v') = - 32768))"
proof -
  have d: "dec 4294967295 = ''4294967295''"
    by (simp add: dec.simps char_of_def bit_Suc_0_iff)
  have d': "dec_int (- 32768) = ''-32768''"
    by (simp add: dec_int_def dec.simps char_of_def bit_Suc_0_iff)
  have a: "Split (''east'' @ HT # dec 4294967295 @ [HT]) HT = ''east'' # dec 4294967295 # [ [] ]"
    by (simp add: d)
  have b: "ToLower id ''east'' = ''east''" by (simp add: ToLower_def lower_byte_Char)
  have c: "(''east'', 32, \<lambda>v. unat (east v)) \<in> set unsigned_fields"
    by (simp add: unsigned_fields_def)
  have e: "(4294967295 :: nat) < 2 ^ 32" by simp
  have a': "Split (''sinsts1'' @ HT # dec_int (- 32768) @ [HT]) HT = ''sinsts1'' # dec_int (- 32768) # [ [] ]"
    by (simp add: d')
  have b': "ToLower id ''sinsts1'' = ''sinsts1''" by (simp add: ToLower_def lower_byte_Char)
  have c': "(''sinsts1'', 16, \<lambda>v. sint (sinsts1 v)) \<in> set signed_fields"
    by (simp add: signed_fields_def)
  have e': "- (2 ^ (16 - 1)) \<le> (- 32768 :: int)" "(- 32768 :: int) < 2 ^ (16 - 1)" by simp_all
  from numeric_roundtrip [OF a b, where w = 32 and get = "\<lambda>v. unat (east v)"
      and n = 4294967295 and v = linkyValues0] c e
  have 1: "\<exists>v'. proceedLine id linkyValues0 (''east'' @ HT # dec 4294967295 @ [HT]) = Inr v'
            \<and> unat (east v') = 4294967295"
    by blast
  from numeric_roundtrip [OF a' b', where w = 16 and sget = "\<lambda>v. sint (sinsts1 v)"
      and i = "- 32768" and v = linkyValues0] c' e'
  have 2: "\<exists>v'. proceedLine id linkyValues0 (''sinsts1'' @ HT # dec_int (- 32768) @ [HT]) = Inr v'
            \<and> sint (sinsts1 v') = - 32768"
    by blast
  from a b c e a' b' c' e' 1 2 show ?thesis by (intro conjI)
qed

text \<open>
  C10: a payload token that is a base-10 integer above the field's range stores the
  largest value of the field's width, neither a value wrapped modulo \<open>2 ^ w\<close> nor the
  previous value; the signed 16-bit fields saturate at 32767 and, with a minus sign, at
  -32768.
\<close>

theorem numeric_saturation:
  assumes "Split line HT = idt # tok # rest" and "ToLower ul idt = name"
    and "ds \<noteq> []" and "list_all isDigit ds"
  shows "((name, w, get) \<in> set unsigned_fields \<and> tok = ds \<and> decval ds > 2 ^ w - 1 \<longrightarrow>
            (\<exists>v'. proceedLine ul v line = Inr v' \<and> get v' = 2 ^ w - 1))
       \<and> ((name, w, sget) \<in> set signed_fields \<and> (tok = ds \<or> tok = CHR ''+'' # ds)
             \<and> decval ds > 2 ^ (w - 1) - 1 \<longrightarrow>
            (\<exists>v'. proceedLine ul v line = Inr v' \<and> sget v' = 2 ^ (w - 1) - 1))
       \<and> ((name, w, sget) \<in> set signed_fields \<and> tok = CHR ''-'' # ds
             \<and> decval ds > 2 ^ (w - 1) \<longrightarrow>
            (\<exists>v'. proceedLine ul v line = Inr v' \<and> sget v' = - (2 ^ (w - 1))))"
proof (intro conjI impI; elim conjE)
  assume f: "(name, w, get) \<in> set unsigned_fields" and t: "tok = ds" and big: "decval ds > 2 ^ w - 1"
  from unsigned_widths [OF f] have w: "w \<le> 32" by simp
  from unsigned_dispatch [OF f assms(1,2), of v] obtain v'
    where v': "proceedLine ul v line = Inr v'" "get v' = fst (ParseUint tok w)" by blast
  have "get v' = 2 ^ w - 1"
    using v'(2) big by (simp add: t ParseUint_digits [OF assms(3,4) w])
  with v'(1) show "\<exists>v'. proceedLine ul v line = Inr v' \<and> get v' = 2 ^ w - 1" by blast
next
  assume f: "(name, w, sget) \<in> set signed_fields" and t: "tok = ds \<or> tok = CHR ''+'' # ds"
    and big: "decval ds > 2 ^ (w - 1) - 1"
  from signed_widths [OF f] have w: "w \<le> 32" "0 < w" by simp_all
  from signed_dispatch [OF f assms(1,2), of v] obtain v'
    where v': "proceedLine ul v line = Inr v'" "sget v' = fst (ParseInt tok w)" by blast
  have nb: "\<not> decval ds < 2 ^ (w - 1)" using big by simp
  have "fst (ParseInt tok w) = 2 ^ (w - 1) - 1"
    using t nb
    by (auto simp: ParseInt_digits [OF assms(3,4) w] ParseInt_plus_digits [OF assms(3,4) w])
  with v' show "\<exists>v'. proceedLine ul v line = Inr v' \<and> sget v' = 2 ^ (w - 1) - 1" by auto
next
  assume f: "(name, w, sget) \<in> set signed_fields" and t: "tok = CHR ''-'' # ds"
    and big: "decval ds > 2 ^ (w - 1)"
  from signed_widths [OF f] have w: "w \<le> 32" "1 < w" by simp_all
  from signed_dispatch [OF f assms(1,2), of v] obtain v'
    where v': "proceedLine ul v line = Inr v'" "sget v' = fst (ParseInt tok w)" by blast
  have "fst (ParseInt tok w) = - (2 ^ (w - 1))"
    using big by (simp add: t ParseInt_minus_digits [OF assms(3,4) w])
  with v' show "\<exists>v'. proceedLine ul v line = Inr v' \<and> sget v' = - (2 ^ (w - 1))" by auto
qed

text \<open>
  C10, witness: \<^verbatim>\<open>east<TAB>99999999999\<close> stores 4294967295, \<^verbatim>\<open>sinsts1<TAB>40000\<close>
  stores 32767 and \<^verbatim>\<open>sinsts1<TAB>-40000\<close> stores -32768.
\<close>

theorem numeric_saturation_witness:
  "(Split (''east'' @ HT # ''99999999999'') HT = [''east'', ''99999999999'']
      \<and> ToLower id ''east'' = ''east''
      \<and> ''99999999999'' \<noteq> [] \<and> list_all isDigit ''99999999999''
      \<and> (''east'', 32, \<lambda>v. unat (east v)) \<in> set unsigned_fields
      \<and> decval ''99999999999'' > 2 ^ 32 - 1
      \<and> (\<exists>v'. proceedLine id linkyValues0 (''east'' @ HT # ''99999999999'') = Inr v'
            \<and> unat (east v') = 2 ^ 32 - 1))
   \<and> (Split (''sinsts1'' @ HT # ''40000'') HT = [''sinsts1'', ''40000'']
      \<and> ToLower id ''sinsts1'' = ''sinsts1''
      \<and> ''40000'' \<noteq> [] \<and> list_all isDigit ''40000''
      \<and> (''sinsts1'', 16, \<lambda>v. sint (sinsts1 v)) \<in> set signed_fields
      \<and> decval ''40000'' > 2 ^ (16 - 1) - 1
      \<and> (\<exists>v'. proceedLine id linkyValues0 (''sinsts1'' @ HT # ''40000'') = Inr v'
            \<and> sint (sinsts1 v') = 2 ^ (16 - 1) - 1))
   \<and> (Split (''sinsts1'' @ HT # ''-40000'') HT = [''sinsts1'', ''-40000'']
      \<and> decval ''40000'' > 2 ^ (16 - 1)
      \<and> (\<exists>v'. proceedLine id linkyValues0 (''sinsts1'' @ HT # ''-40000'') = Inr v'
            \<and> sint (sinsts1 v') = - (2 ^ (16 - 1))))"
proof -
  have a: "Split (''east'' @ HT # ''99999999999'') HT = ''east'' # ''99999999999'' # []" by simp
  have b: "ToLower id ''east'' = ''east''" by (simp add: ToLower_def lower_byte_Char)
  have n: "''99999999999'' \<noteq> []" by simp
  have g: "list_all isDigit ''99999999999''" by (simp add: isDigit_def)
  have c: "(''east'', 32, \<lambda>v. unat (east v)) \<in> set unsigned_fields"
    by (simp add: unsigned_fields_def)
  have e: "decval ''99999999999'' > 2 ^ 32 - 1" by (simp add: digitVal_def)
  have a': "Split (''sinsts1'' @ HT # ''40000'') HT = ''sinsts1'' # ''40000'' # []" by simp
  have a'': "Split (''sinsts1'' @ HT # ''-40000'') HT = ''sinsts1'' # (CHR ''-'' # ''40000'') # []" by simp
  have b': "ToLower id ''sinsts1'' = ''sinsts1''" by (simp add: ToLower_def lower_byte_Char)
  have n': "''40000'' \<noteq> []" by simp
  have g': "list_all isDigit ''40000''" by (simp add: isDigit_def)
  have c': "(''sinsts1'', 16, \<lambda>v. sint (sinsts1 v)) \<in> set signed_fields"
    by (simp add: signed_fields_def)
  have e': "decval ''40000'' > 2 ^ (16 - 1) - 1" by (simp add: digitVal_def)
  have e'': "decval ''40000'' > 2 ^ (16 - 1)" by (simp add: digitVal_def)
  from numeric_saturation [OF a b n g, where w = 32 and get = "\<lambda>v. unat (east v)"
      and v = linkyValues0] c e
  have 1: "\<exists>v'. proceedLine id linkyValues0 (''east'' @ HT # ''99999999999'') = Inr v'
            \<and> unat (east v') = 2 ^ 32 - 1"
    by blast
  from numeric_saturation [OF a' b' n' g', where w = 16 and sget = "\<lambda>v. sint (sinsts1 v)"
      and v = linkyValues0] c' e'
  have 2: "\<exists>v'. proceedLine id linkyValues0 (''sinsts1'' @ HT # ''40000'') = Inr v'
            \<and> sint (sinsts1 v') = 2 ^ (16 - 1) - 1"
    by blast
  from numeric_saturation [OF a'' b' n' g', where w = 16 and sget = "\<lambda>v. sint (sinsts1 v)"
      and v = linkyValues0] c' e''
  have 3: "\<exists>v'. proceedLine id linkyValues0 (''sinsts1'' @ HT # ''-40000'') = Inr v'
            \<and> sint (sinsts1 v') = - (2 ^ (16 - 1))"
    by blast
  have a3: "Split (''sinsts1'' @ HT # ''-40000'') HT = [''sinsts1'', ''-40000'']" by simp
  from a b n g c e 1 a' b' n' g' c' e' 2 a3 e'' 3 show ?thesis by (intro conjI)
qed

subsection \<open>Peak-management fields\<close>

text \<open>
  C9: for each of \<^verbatim>\<open>dpm1..dpm3\<close> and \<^verbatim>\<open>fpm1..fpm3\<close>, a line with the identifier and
  two payload tokens stores token 1 as the timestamp and token 2 as the label.
\<close>

theorem peak_fields_decoded:
  assumes "(name, label, timestamp) \<in> set peak_fields"
    and "Split line HT = idt # t1 # t2 # rest" and "ToLower ul idt = name"
  shows "\<exists>v'. proceedLine ul v line = Inr v' \<and> timestamp v' = t1 \<and> label v' = t2"
  using peak_dispatch [OF assms, of v] by blast

text \<open>
  C9, witness: the line \<^verbatim>\<open>dpm1<TAB>231201120000<TAB>HCHP<TAB>\<close> sets the label
  \<^verbatim>\<open>dpm1\<close> to \<^verbatim>\<open>HCHP\<close> and \<^verbatim>\<open>dpm1_timestamp\<close> to \<^verbatim>\<open>231201120000\<close>.
\<close>

theorem peak_fields_decoded_witness:
  "(''dpm1'', dpm1, dpm1_timestamp) \<in> set peak_fields
   \<and> Split (''dpm1'' @ HT # ''231201120000'' @ HT # ''HCHP'' @ [HT]) HT
       = [''dpm1'', ''231201120000'', ''HCHP'', [] ]
   \<and> ToLower id ''dpm1'' = ''dpm1''
   \<and> (\<exists>v'. proceedLine id linkyValues0 (''dpm1'' @ HT # ''231201120000'' @ HT # ''HCHP'' @ [HT]) = Inr v'
         \<and> dpm1_timestamp v' = ''231201120000'' \<and> dpm1 v' = ''HCHP'')"
proof -
  have a: "(''dpm1'', dpm1, dpm1_timestamp) \<in> set peak_fields" by (simp add: peak_fields_def)
  have b: "Split (''dpm1'' @ HT # ''231201120000'' @ HT # ''HCHP'' @ [HT]) HT
       = ''dpm1'' # ''231201120000'' # ''HCHP'' # [ [] ]" by simp
  have c: "ToLower id ''dpm1'' = ''dpm1''" by (simp add: ToLower_def lower_byte_Char)
  from a b c peak_fields_decoded [OF a b c, of linkyValues0] show ?thesis by (intro conjI)
qed

subsection \<open>Frames\<close>

text \<open>
  C4, as stated, fails: for the stream whose frame is a start-marker line immediately
  followed by an end-marker line, \<^verbatim>\<open>readSerial\<close> returns \<^verbatim>\<open>nil\<close> and the cycle
  emits the 37 samples of the zero record, not zero samples.
\<close>

theorem frame_without_fields_example:
  "sample_count (Collect id (NewLinkyCollector ''/dev/serial0'' 1200 0 0 0)
       (Inr (Line [STX] ## Line [ETX] ## sconst (ReadFail EOF)))) = Some 37
   \<and> sample_count (Collect id (NewLinkyCollector ''/dev/serial0'' 1200 0 0 0)
       (Inr (Line [STX] ## Line [ETX] ## sconst (ReadFail EOF)))) \<noteq> Some 0"
proof -
  have "readSerial id (Inr (Line [STX] ## Line [ETX] ## sconst (ReadFail EOF))) linkyValues0
          = Some (Return (None, linkyValues0))"
    by (simp add: readSerial_def loop_Line decode_eval)
  moreover obtain ms where
    "send_all (metrics (NewLinkyCollector ''/dev/serial0'' 1200 0 0 0) linkyValues0) = Inr ms"
    "length ms = 37"
    using zero_record_metrics by blast
  ultimately show ?thesis by (simp add: Collect_def sample_count_def)
qed

text \<open>
  C4 (amended): values are projected into samples only if a line with the start byte
  and a later line with the end byte were both read, and no field line between them is
  needed: for a stream whose frame is a start-marker line immediately followed by an
  end-marker line, with a start-marker line that carries no field, the cycle logs
  nothing and emits exactly the 37 samples that project the zero record, in the order
  of the sends.
\<close>

theorem frame_without_fields_is_projected:
  assumes "\<forall>l\<in>set pre. STX \<notin> set l" and "STX \<in> set start" and "ETX \<in> set fin"
    and "proceedLine ul linkyValues0 start = Inr linkyValues0"
  shows "(\<exists>ms. Collect ul (NewLinkyCollector dev baud fsize par stop)
                 (Inr (map Line (pre @ [start, fin]) @- rest)) = Some (Return (ms, []))
              \<and> map Inr ms = metrics (NewLinkyCollector dev baud fsize par stop) linkyValues0
              \<and> length ms = 37)
       \<and> sample_count (Collect ul (NewLinkyCollector dev baud fsize par stop)
            (Inr (map Line (pre @ [start, fin]) @- rest))) = Some 37
       \<and> (sample_count (Collect ul collector (Inr s)) = Some (Suc k) \<longrightarrow>
            (\<exists>i j l l'. i < j \<and> s !! i = Line l \<and> STX \<in> set l \<and> s !! j = Line l' \<and> ETX \<in> set l'))"
proof (intro conjI)
  have r: "readSerial ul (Inr (map Line (pre @ [start, fin]) @- rest)) linkyValues0
          = Some (Return (None, linkyValues0))"
    using assms by (simp add: readSerial_def loop_before_start loop_Line)
  obtain ms where ms:
    "send_all (metrics (NewLinkyCollector dev baud fsize par stop) linkyValues0) = Inr ms"
    "length ms = 37"
    using zero_record_metrics by blast
  have c: "Collect ul (NewLinkyCollector dev baud fsize par stop)
             (Inr (map Line (pre @ [start, fin]) @- rest)) = Some (Return (ms, []))"
    using r ms(1) by (simp add: Collect_def)
  from c send_all_Inr [OF ms(1)] ms(2)
  show "\<exists>ms. Collect ul (NewLinkyCollector dev baud fsize par stop)
                 (Inr (map Line (pre @ [start, fin]) @- rest)) = Some (Return (ms, []))
              \<and> map Inr ms = metrics (NewLinkyCollector dev baud fsize par stop) linkyValues0
              \<and> length ms = 37"
    by blast
  from c ms(2)
  show "sample_count (Collect ul (NewLinkyCollector dev baud fsize par stop)
            (Inr (map Line (pre @ [start, fin]) @- rest))) = Some 37"
    by (simp add: sample_count_def)
next
  show "sample_count (Collect ul collector (Inr s)) = Some (Suc k) \<longrightarrow>
            (\<exists>i j l l'. i < j \<and> s !! i = Line l \<and> STX \<in> set l \<and> s !! j = Line l' \<and> ETX \<in> set l')"
  proof
    assume c: "sample_count (Collect ul collector (Inr s)) = Some (Suc k)"
    then obtain v' where r: "readSerial_loop ul s False linkyValues0 = Some (Return (None, v'))"
      by (auto simp: sample_count_def Collect_def readSerial_def
               split: option.splits outcome.splits sum.splits)
    from loop_returns_nil [OF r] show
      "\<exists>i j l l'. i < j \<and> s !! i = Line l \<and> STX \<in> set l \<and> s !! j = Line l' \<and> ETX \<in> set l'"
      by blast
  qed
qed

text \<open>
  C4, witness: a line of noise, the start-marker line and the end-marker line give the
  samples of the zero record; and the two markers are found in the stream from the 37
  samples emitted.
\<close>

theorem frame_without_fields_is_projected_witness:
  "STX \<notin> set ''noise'' \<and> STX \<in> set [STX] \<and> ETX \<in> set [ETX]
   \<and> proceedLine id linkyValues0 [STX] = Inr linkyValues0
   \<and> (\<exists>ms. Collect id (NewLinkyCollector ''/dev/serial0'' 1200 0 0 0)
               (Inr (map Line ([''noise''] @ [ [STX], [ETX] ]) @- sconst (ReadFail EOF)))
             = Some (Return (ms, []))
           \<and> map Inr ms = metrics (NewLinkyCollector ''/dev/serial0'' 1200 0 0 0) linkyValues0
           \<and> length ms = 37)
   \<and> sample_count (Collect id (NewLinkyCollector ''/dev/serial0'' 1200 0 0 0)
        (Inr (map Line ([''noise''] @ [ [STX], [ETX] ]) @- sconst (ReadFail EOF)))) = Some 37
   \<and> sample_count (Collect id (NewLinkyCollector ''/dev/serial0'' 1200 0 0 0)
        (Inr (Line [STX] ## Line [ETX] ## sconst (ReadFail EOF)))) = Some (Suc 36)
   \<and> (\<exists>i j l l'. i < j
         \<and> (Line [STX] ## Line [ETX] ## sconst (ReadFail EOF)) !! i = Line l \<and> STX \<in> set l
         \<and> (Line [STX] ## Line [ETX] ## sconst (ReadFail EOF)) !! j = Line l' \<and> ETX \<in> set l')"
proof -
  have a: "\<forall>l\<in>set [''noise'']. STX \<notin> set l" by simp
  have a': "\<forall>l\<in>set []. STX \<notin> set l" by simp
  have b: "STX \<in> set [STX]" by simp
  have c: "ETX \<in> set [ETX]" by simp
  have d: "proceedLine id linkyValues0 [STX] = Inr linkyValues0" by (simp add: decode_eval)
  note t = frame_without_fields_is_projected [OF a b c d, where rest = "sconst (ReadFail EOF)"
      and dev = "''/dev/serial0''" and baud = 1200 and fsize = 0 and par = 0 and stop = 0]
  note t' = frame_without_fields_is_projected [OF a' b c d, where rest = "sconst (ReadFail EOF)"
      and dev = "''/dev/serial0''" and baud = 1200 and fsize = 0 and par = 0 and stop = 0
      and collector = "NewLinkyCollector ''/dev/serial0'' 1200 0 0 0"
      and s = "Line [STX] ## Line [ETX] ## sconst (ReadFail EOF)" and k = 36]
  have 0: "\<exists>ms. Collect id (NewLinkyCollector ''/dev/serial0'' 1200 0 0 0)
               (Inr (map Line ([''noise''] @ [ [STX], [ETX] ]) @- sconst (ReadFail EOF)))
             = Some (Return (ms, []))
           \<and> map Inr ms = metrics (NewLinkyCollector ''/dev/serial0'' 1200 0 0 0) linkyValues0
           \<and> length ms = 37"
    using t by blast
  have 1: "sample_count (Collect id (NewLinkyCollector ''/dev/serial0'' 1200 0 0 0)
        (Inr (map Line ([''noise''] @ [ [STX], [ETX] ]) @- sconst (ReadFail EOF)))) = Some 37"
    using t by blast
  have 2: "sample_count (Collect id (NewLinkyCollector ''/dev/serial0'' 1200 0 0 0)
        (Inr (Line [STX] ## Line [ETX] ## sconst (ReadFail EOF)))) = Some (Suc 36)"
    using t' by simp
  have 3: "\<exists>i j l l'. i < j
         \<and> (Line [STX] ## Line [ETX] ## sconst (ReadFail EOF)) !! i = Line l \<and> STX \<in> set l
         \<and> (Line [STX] ## Line [ETX] ## sconst (ReadFail EOF)) !! j = Line l' \<and> ETX \<in> set l'"
    using t' 2 by blast
  have a0: "STX \<notin> set ''noise''" by simp
  from a0 b c d 0 1 2 3 show ?thesis by (intro conjI)
qed

text \<open>
  C5, as stated, fails: the start-marker line itself is forwarded to the decoder. A
  start-marker line that carries \<^verbatim>\<open>adsc\<close> before the start byte puts \<^verbatim>\<open>adsc\<close> in
  the values returned, although only \<^verbatim>\<open>east\<close> is on the lines between the markers.
\<close>

theorem start_line_is_decoded_example:
  "readSerial id
       (Inr (Line (''adsc'' @ HT # ''041876543210'' @ [HT, STX]) ## Line (''east'' @ HT # ''5'')
             ## Line [ETX] ## sconst (ReadFail EOF))) linkyValues0
     = Some (Return (None, linkyValues0\<lparr>adsc := ''041876543210'', east := 5\<rparr>))
   \<and> decode_lines id linkyValues0 [''east'' @ HT # ''5''] = Inr (linkyValues0\<lparr>east := 5\<rparr>)
   \<and> adsc (linkyValues0\<lparr>adsc := ''041876543210'', east := 5\<rparr>) \<noteq> adsc (linkyValues0\<lparr>east := 5\<rparr>)"
  by (simp add: readSerial_def loop_Line decode_eval linkyValues0_def)

text \<open>
  C5 (amended): for every stream with a frame (lines without the start byte, a line
  with the start byte, lines without the end byte, a line with the end byte) whose
  lines from the start-marker line on have the tokens their identifiers need,
  \<^verbatim>\<open>readSerial\<close> returns \<^verbatim>\<open>nil\<close> and exactly the fields decoded, in order, from the
  start-marker line and the lines between the markers; the end-marker line and what
  follows it contribute nothing.
\<close>

theorem frame_snapshot:
  assumes "\<forall>l\<in>set pre. STX \<notin> set l" and "STX \<in> set start"
    and "\<forall>l\<in>set body. ETX \<notin> set l" and "ETX \<in> set fin"
    and "decode_lines ul linkyValues0 (start # body) = Inr v'"
  shows "readSerial ul (Inr (map Line (pre @ start # body @ [fin]) @- rest)) linkyValues0
           = Some (Return (None, v'))"
proof -
  have "readSerial_loop ul (map Line pre @- map Line (start # body) @- Line fin ## rest) False linkyValues0
          = readSerial_loop ul (map Line (start # body) @- Line fin ## rest) False linkyValues0"
    using assms(1) by (rule loop_before_start)
  also have "\<dots> = readSerial_loop ul (Line fin ## rest) True v'"
    using loop_frame [OF assms(2,3), of ul "Line fin ## rest" linkyValues0] assms(5) by simp
  also have "\<dots> = Some (Return (None, v'))"
    using assms(4) by (simp add: loop_Line)
  finally show ?thesis by (simp add: readSerial_def)
qed

text \<open>
  C5, witness: the specification's example frame, \<^verbatim>\<open>prm\<close> and \<^verbatim>\<open>east\<close> between a
  start-marker line and an end-marker line.
\<close>

theorem frame_snapshot_witness:
  "STX \<notin> set ''noise'' \<and> STX \<in> set [STX]
   \<and> ETX \<notin> set (''prm'' @ HT # ''012345678901'' @ [HT])
   \<and> ETX \<notin> set (''east'' @ HT # ''001234567'' @ [HT])
   \<and> ETX \<in> set [ETX]
   \<and> decode_lines id linkyValues0
        ([STX] # [''prm'' @ HT # ''012345678901'' @ [HT], ''east'' @ HT # ''001234567'' @ [HT] ])
       = Inr (linkyValues0\<lparr>prm := ''012345678901'', east := 1234567\<rparr>)
   \<and> readSerial id
        (Inr (map Line ([''noise''] @ [STX]
                 # [''prm'' @ HT # ''012345678901'' @ [HT], ''east'' @ HT # ''001234567'' @ [HT] ]
                 @ [ [ETX] ]) @- sconst (ReadFail EOF))) linkyValues0
       = Some (Return (None, linkyValues0\<lparr>prm := ''012345678901'', east := 1234567\<rparr>))"
proof -
  have a: "\<forall>l\<in>set [''noise'']. STX \<notin> set l" by simp
  have b: "STX \<in> set [STX]" by simp
  have c: "\<forall>l\<in>set [''prm'' @ HT # ''012345678901'' @ [HT], ''east'' @ HT # ''001234567'' @ [HT] ].
             ETX \<notin> set l" by simp
  have d: "ETX \<in> set [ETX]" by simp
  have e: "decode_lines id linkyValues0
        ([STX] # [''prm'' @ HT # ''012345678901'' @ [HT], ''east'' @ HT # ''001234567'' @ [HT] ])
       = Inr (linkyValues0\<lparr>prm := ''012345678901'', east := 1234567\<rparr>)"
    by (simp add: decode_eval linkyValues0_def)
  have a0: "STX \<notin> set ''noise''" by simp
  have c1: "ETX \<notin> set (''prm'' @ HT # ''012345678901'' @ [HT])" by simp
  have c2: "ETX \<notin> set (''east'' @ HT # ''001234567'' @ [HT])" by simp
  from a0 b c1 c2 d e frame_snapshot [OF a b c d e, of "sconst (ReadFail EOF)"]
  show ?thesis by (intro conjI)
qed




text \<open>
  Read failures. If a read fails before the loop has seen an end marker inside a
  frame, whether before any start marker (\<open>post = []\<close>) or after one, and the lines
  forwarded to the decoder were decoded, \<^verbatim>\<open>readSerial\<close> returns the read error and
  \<^verbatim>\<open>Collect\<close> logs it and sends no metric; and in every case no metric is sent.
\<close>

theorem read_failure_aborts:
  assumes "\<forall>l\<in>set pre. STX \<notin> set l"
    and "post = [] \<or> STX \<in> set (hd post)"
    and "\<forall>l\<in>set (tl post). ETX \<notin> set l"
  shows "(decode_lines ul linkyValues0 post = Inr v' \<longrightarrow>
            readSerial ul (Inr (map Line (pre @ post) @- ReadFail err ## rest)) linkyValues0
              = Some (Return (Some err, v'))
            \<and> Collect ul collector (Inr (map Line (pre @ post) @- ReadFail err ## rest))
              = Some (Return ([], [Errorf ''Unable to read telemetry information : %s'' err])))
       \<and> sample_count (Collect ul collector (Inr (map Line (pre @ post) @- ReadFail err ## rest)))
           \<noteq> Some (Suc k)"
proof -
  have pre: "readSerial_loop ul (map Line pre @- map Line post @- ReadFail err ## rest) False linkyValues0
          = readSerial_loop ul (map Line post @- ReadFail err ## rest) False linkyValues0"
    using assms(1) by (rule loop_before_start)
  have "readSerial_loop ul (map Line post @- ReadFail err ## rest) False linkyValues0
          = (case decode_lines ul linkyValues0 post of
               Inl p \<Rightarrow> Some (Panic p)
             | Inr v' \<Rightarrow> Some (Return (Some err, v')))"
  proof (cases post)
    case Nil
    then show ?thesis by (simp add: loop_ReadFail)
  next
    case (Cons start fs)
    with assms(2,3) have st: "STX \<in> set start" and fs: "\<forall>l\<in>set fs. ETX \<notin> set l" by simp_all
    show ?thesis
      unfolding Cons loop_frame [OF st fs]
      by (simp add: loop_ReadFail split: sum.splits)
  qed
  with pre have key:
    "readSerial ul (Inr (map Line (pre @ post) @- ReadFail err ## rest)) linkyValues0
       = (case decode_lines ul linkyValues0 post of
            Inl p \<Rightarrow> Some (Panic p)
          | Inr v' \<Rightarrow> Some (Return (Some err, v')))"
    by (simp add: readSerial_def)
  show ?thesis
    unfolding Collect_def key by (simp add: sample_count_def split: sum.splits)
qed

text \<open>
  An instance: a read failure after a start-marker line and one field line, and a read
  failure before any start marker.
\<close>

theorem read_failure_aborts_witness:
  "STX \<notin> set ''noise''
   \<and> STX \<in> set (hd [ [STX], ''east'' @ HT # ''5''])
   \<and> ETX \<notin> set (''east'' @ HT # ''5'')
   \<and> decode_lines id linkyValues0 [ [STX], ''east'' @ HT # ''5''] = Inr (linkyValues0\<lparr>east := 5\<rparr>)
   \<and> readSerial id (Inr (map Line ([''noise''] @ [ [STX], ''east'' @ HT # ''5''])
          @- ReadFail EOF ## sconst (ReadFail EOF))) linkyValues0
       = Some (Return (Some EOF, linkyValues0\<lparr>east := 5\<rparr>))
   \<and> Collect id (NewLinkyCollector ''/dev/serial0'' 1200 0 0 0)
        (Inr (map Line ([''noise''] @ [ [STX], ''east'' @ HT # ''5''])
          @- ReadFail EOF ## sconst (ReadFail EOF)))
       = Some (Return ([], [Errorf ''Unable to read telemetry information : %s'' EOF]))
   \<and> sample_count (Collect id (NewLinkyCollector ''/dev/serial0'' 1200 0 0 0)
        (Inr (map Line ([''noise''] @ [ [STX], ''east'' @ HT # ''5''])
          @- ReadFail EOF ## sconst (ReadFail EOF)))) \<noteq> Some (Suc 0)
   \<and> Collect id (NewLinkyCollector ''/dev/serial0'' 1200 0 0 0)
        (Inr (map Line ([''noise''] @ []) @- ReadFail EOF ## sconst (ReadFail EOF)))
       = Some (Return ([], [Errorf ''Unable to read telemetry information : %s'' EOF]))"
proof -
  have a: "\<forall>l\<in>set [''noise'']. STX \<notin> set l" by simp
  have b: "[ [STX], ''east'' @ HT # ''5''] = [] \<or> STX \<in> set (hd [ [STX], ''east'' @ HT # ''5''])" by simp
  have c: "\<forall>l\<in>set (tl [ [STX], ''east'' @ HT # ''5'']). ETX \<notin> set l" by simp
  have d: "decode_lines id linkyValues0 [ [STX], ''east'' @ HT # ''5''] = Inr (linkyValues0\<lparr>east := 5\<rparr>)"
    by (simp add: decode_eval)
  have b': "([]::string list) = [] \<or> STX \<in> set (hd [])" by simp
  have c': "\<forall>l\<in>set (tl ([]::string list)). ETX \<notin> set l" by simp
  have d': "decode_lines id linkyValues0 [] = Inr linkyValues0" by simp
  note t = read_failure_aborts [OF a b c, of id "linkyValues0\<lparr>east := 5\<rparr>" EOF "sconst (ReadFail EOF)"
      "NewLinkyCollector ''/dev/serial0'' 1200 0 0 0" 0]
  note t' = read_failure_aborts [OF a b' c', of id linkyValues0 EOF "sconst (ReadFail EOF)"
      "NewLinkyCollector ''/dev/serial0'' 1200 0 0 0" 0]
  have a0: "STX \<notin> set ''noise''" by simp
  have b0: "STX \<in> set (hd [ [STX], ''east'' @ HT # ''5''])" by simp
  have c0: "ETX \<notin> set (''east'' @ HT # ''5'')" by simp
  from t d have 1: "readSerial id (Inr (map Line ([''noise''] @ [ [STX], ''east'' @ HT # ''5''])
          @- ReadFail EOF ## sconst (ReadFail EOF))) linkyValues0
       = Some (Return (Some EOF, linkyValues0\<lparr>east := 5\<rparr>))" by blast
  from t d have 2: "Collect id (NewLinkyCollector ''/dev/serial0'' 1200 0 0 0)
        (Inr (map Line ([''noise''] @ [ [STX], ''east'' @ HT # ''5''])
          @- ReadFail EOF ## sconst (ReadFail EOF)))
       = Some (Return ([], [Errorf ''Unable to read telemetry information : %s'' EOF]))" by blast
  from t have 3: "sample_count (Collect id (NewLinkyCollector ''/dev/serial0'' 1200 0 0 0)
        (Inr (map Line ([''noise''] @ [ [STX], ''east'' @ HT # ''5''])
          @- ReadFail EOF ## sconst (ReadFail EOF)))) \<noteq> Some (Suc 0)" by blast
  from t' d' have 4: "Collect id (NewLinkyCollector ''/dev/serial0'' 1200 0 0 0)
        (Inr (map Line ([''noise''] @ []) @- ReadFail EOF ## sconst (ReadFail EOF)))
       = Some (Return ([], [Errorf ''Unable to read telemetry information : %s'' EOF]))" by blast
  from a0 b0 c0 d 1 2 3 4 show ?thesis by (intro conjI)
qed

text \<open>
  C7 holds where the lines forwarded to the decoder have the tokens their identifiers
  need. The code where they do not: the device fails in the middle of the line
  \<^verbatim>\<open>EAST<TAB>...\<close>, so that the reads give the start-marker line, the line
  \<^verbatim>\<open>EAST\<close> cut before its tab, and then the error. No end marker has been read. The
  decoder panics on \<^verbatim>\<open>data[1]\<close> before the failing read is made: \<^verbatim>\<open>readSerial\<close>
  does not return the stream failure and \<^verbatim>\<open>Collect\<close> logs nothing; the panic leaves
  both.
\<close>

theorem read_failure_after_short_line_panics:
  "readSerial ul (Inr (Line [STX] ## Line ''EAST'' ## ReadFail EOF ## rest)) linkyValues0
     = Some (Panic (IndexOutOfRange 1 1))
   \<and> Collect ul collector (Inr (Line [STX] ## Line ''EAST'' ## ReadFail EOF ## rest))
     = Some (Panic (IndexOutOfRange 1 1))
   \<and> Collect ul collector (Inr (Line [STX] ## Line ''EAST'' ## ReadFail EOF ## rest))
     \<noteq> Some (Return ([], [Errorf ''Unable to read telemetry information : %s'' EOF]))"
  by (simp add: Collect_def readSerial_def loop_Line decode_eval)

end
